theory Spec2Isabelle
  imports Complex_Main "HOL-Library.AList"
begin

section \<open>Python primitives used by the bots\<close>

text \<open>
  Amounts and clock readings are Python floats in the source. They are modelled as exact
  rationals: rounding, infinities and NaN are outside this development. One clock reading
  \<open>now\<close> (seconds since the epoch) is passed to every handler; it stands for both
  \<open>time.time()\<close> and \<open>datetime.datetime.now()\<close>.
\<close>

definition py_int :: "rat \<Rightarrow> int" where
  \<comment> \<open>\<open>int(x)\<close> on a float: truncation toward zero.\<close>
  "py_int x = (if 0 \<le> x then \<lfloor>x\<rfloor> else \<lceil>x\<rceil>)"

definition date_of :: "rat \<Rightarrow> int" where
  \<comment> \<open>\<open>.date()\<close> of a timestamp: the number of the calendar day it falls on.\<close>
  "date_of t = \<lfloor>t / 86400\<rfloor>"

definition digit :: "nat \<Rightarrow> char" where
  "digit d = ''0123456789'' ! d"

function str_nat :: "nat \<Rightarrow> string" where
  "str_nat n = (if n < 10 then [digit n] else str_nat (n div 10) @ [digit (n mod 10)])"
  by pat_completeness auto
termination
  by (relation "measure id") auto

declare str_nat.simps [simp del]

definition str :: "int \<Rightarrow> string" where
  \<comment> \<open>\<open>str(i)\<close> of an integer: its decimal numeral.\<close>
  "str i = (if i < 0 then CHR ''-'' # str_nat (nat (- i)) else str_nat (nat i))"

definition digit_value :: "char \<Rightarrow> nat option" where
  \<comment> \<open>The value of a decimal digit; None for any other character.\<close>
  "digit_value = map_of
     [(CHR ''0'', 0), (CHR ''1'', 1), (CHR ''2'', 2), (CHR ''3'', 3), (CHR ''4'', 4),
      (CHR ''5'', 5), (CHR ''6'', 6), (CHR ''7'', 7), (CHR ''8'', 8), (CHR ''9'', 9)]"

fun digits_value :: "nat \<Rightarrow> string \<Rightarrow> nat option" where
  "digits_value acc [] = Some acc"
| "digits_value acc (c # cs) =
     (case digit_value c of None \<Rightarrow> None | Some d \<Rightarrow> digits_value (10 * acc + d) cs)"

definition isdigit :: "string \<Rightarrow> bool" where
  \<comment> \<open>\<open>s.isdigit()\<close>, for ASCII text: non-empty and decimal digits only.\<close>
  "isdigit s = (s \<noteq> [] \<and> list_all (\<lambda>c. digit_value c \<noteq> None) s)"

datatype py_error = KeyError | ValueError

definition int_of_str :: "string \<Rightarrow> py_error + int" where
  \<comment> \<open>\<open>int(s)\<close> on the decimal numerals that \<open>str\<close> produces; other text raises
      ValueError (Python also accepts blanks, a plus sign and underscores, which no key
      written by \<open>str\<close> contains).\<close>
  "int_of_str s =
     (case s of
        [] \<Rightarrow> Inl ValueError
      | c # cs \<Rightarrow>
          if c = CHR ''-'' then
            (if cs = [] then Inl ValueError
             else case digits_value 0 cs of None \<Rightarrow> Inl ValueError | Some n \<Rightarrow> Inr (- int n))
          else (case digits_value 0 (c # cs) of None \<Rightarrow> Inl ValueError | Some n \<Rightarrow> Inr (int n)))"

fun join_space :: "string list \<Rightarrow> string" where
  \<comment> \<open>\<open>" ".join(words)\<close>\<close>
  "join_space [] = []"
| "join_space [w] = w"
| "join_space (w # ws) = w @ '' '' @ join_space ws"


section \<open>bot_complete_vps.py, second program (main (1).py): the payout-request bot\<close>

subsection \<open>Data\<close>

record user =
  balance :: rat
  total_earned :: rat
  tasks_completed :: int
  referrals :: int
  daily_earned :: rat
  last_activity :: rat
  joined :: rat

datatype status = Pending | Approved | Rejected

datatype remark = Text string | ApprovedByAdminOn rat
  \<comment> \<open>\<open>admin_note\<close>: free text, or the line "Approved by admin on <time>".\<close>

record payout_request =
  user_id :: int
  username :: string
  amount :: rat
  payment_method :: string
  payment_address :: string
  status :: status
  created_at :: rat
  processed_at :: "rat option"
  admin_note :: remark

record task =
  reward :: rat
  wait :: int

text \<open>The constants read from config.json, which is not part of the sources.\<close>

record config =
  ADMIN_ID :: int
  MIN_WITHDRAW :: rat
  TASKS :: "string \<rightharpoonup> task"
  DAILY_LIMIT :: rat
  BONUS_REFERRAL :: rat
  PAYOUT_CONFIG :: "string \<rightharpoonup> rat"

record payout_choice =
  payout_method :: string
  payout_amount :: rat

text \<open>
  The module's global dictionaries, and \<open>context.user_data\<close> of the Telegram framework
  (one dictionary per user; it holds the payout method and amount between the choice of
  the method and the message with the address). \<open>payout_requests\<close> is an insertion-ordered
  dictionary, hence an association list.
\<close>

record state =
  users :: "string \<rightharpoonup> user"
  payout_requests :: "(string \<times> payout_request) list"
  user_tasks :: "string \<rightharpoonup> rat"
  user_data :: "int \<rightharpoonup> payout_choice"

definition fresh :: state where
  \<comment> \<open>The module-level initial values; also what \<open>load_data\<close> gives without data.json.\<close>
  "fresh = \<lparr>users = Map.empty, payout_requests = [], user_tasks = Map.empty,
             user_data = Map.empty\<rparr>"

subsection \<open>Utility functions\<close>

definition new_user :: "rat \<Rightarrow> user" where
  "new_user now = \<lparr>balance = 0, total_earned = 0, tasks_completed = 0, referrals = 0,
                    daily_earned = 0, last_activity = now, joined = now\<rparr>"

definition get_user :: "rat \<Rightarrow> int \<Rightarrow> state \<Rightarrow> user \<times> state" where
  "get_user now uid s =
     (case users s (str uid) of
        None \<Rightarrow> (new_user now, s\<lparr>users := (users s)(str uid \<mapsto> new_user now)\<rparr>)
      | Some u \<Rightarrow> (u, s))"

definition can_earn_today :: "config \<Rightarrow> rat \<Rightarrow> int \<Rightarrow> state \<Rightarrow> bool \<times> state" where
  "can_earn_today cfg now uid s =
     (let (u, s1) = get_user now uid s;
          u1 = (if date_of (last_activity u) < date_of now then u\<lparr>daily_earned := 0\<rparr> else u)
      in (daily_earned u1 < DAILY_LIMIT cfg, s1\<lparr>users := (users s1)(str uid \<mapsto> u1)\<rparr>))"

definition add_earnings :: "rat \<Rightarrow> int \<Rightarrow> rat \<Rightarrow> state \<Rightarrow> state" where
  "add_earnings now uid amt s =
     (let (u, s1) = get_user now uid s
      in s1\<lparr>users := (users s1)(str uid \<mapsto>
            u\<lparr>balance := balance u + amt,
              total_earned := total_earned u + amt,
              daily_earned := daily_earned u + amt,
              tasks_completed := tasks_completed u + 1,
              last_activity := now\<rparr>)\<rparr>)"

definition task_key_of :: "int \<Rightarrow> string \<Rightarrow> string" where
  \<comment> \<open>The key \<open>f"{user_id}_{task_key}"\<close> of \<open>user_tasks\<close>.\<close>
  "task_key_of uid task_key = str uid @ ''_'' @ task_key"

definition start_task_timer :: "rat \<Rightarrow> int \<Rightarrow> string \<Rightarrow> state \<Rightarrow> state" where
  "start_task_timer now uid task_key s =
     s\<lparr>user_tasks := (user_tasks s)(task_key_of uid task_key \<mapsto> now)\<rparr>"

definition truthy_start :: "rat option \<Rightarrow> rat option" where
  \<comment> \<open>\<open>user_tasks.get(key)\<close> followed by \<open>if not task_start\<close>: a missing entry and the
      start time 0 both count as no start.\<close>
  "truthy_start r = (case r of None \<Rightarrow> None | Some t \<Rightarrow> if t = 0 then None else Some t)"

definition is_task_completed :: "config \<Rightarrow> rat \<Rightarrow> int \<Rightarrow> string \<Rightarrow> state \<Rightarrow> py_error + bool" where
  "is_task_completed cfg now uid task_key s =
     (case truthy_start (user_tasks s (task_key_of uid task_key)) of
        None \<Rightarrow> Inr False
      | Some task_start \<Rightarrow>
          (case TASKS cfg task_key of
             None \<Rightarrow> Inl KeyError
           | Some t \<Rightarrow> Inr (now - task_start \<ge> of_int (wait t))))"

definition get_remaining_time :: "config \<Rightarrow> rat \<Rightarrow> int \<Rightarrow> string \<Rightarrow> state \<Rightarrow> py_error + int" where
  "get_remaining_time cfg now uid task_key s =
     (case truthy_start (user_tasks s (task_key_of uid task_key)) of
        None \<Rightarrow> Inr 0
      | Some task_start \<Rightarrow>
          (case TASKS cfg task_key of
             None \<Rightarrow> Inl KeyError
           | Some t \<Rightarrow> Inr (py_int (max 0 (of_int (wait t) - (now - task_start))))))"

definition generate_request_id :: "rat \<Rightarrow> int \<Rightarrow> string" where
  \<comment> \<open>\<open>f"REQ_{int(time.time())}_{random.randint(1000, 9999)}"\<close>; \<open>rnd\<close> is the random draw.\<close>
  "generate_request_id now rnd = ''REQ_'' @ str (py_int now) @ ''_'' @ str rnd"

definition create_payout_request ::
  "rat \<Rightarrow> int \<Rightarrow> int \<Rightarrow> string \<Rightarrow> rat \<Rightarrow> string \<Rightarrow> string \<Rightarrow> state \<Rightarrow> string \<times> state" where
  "create_payout_request now rnd uid uname amt pmethod address s =
     (let request_id = generate_request_id now rnd
      in (request_id,
          s\<lparr>payout_requests := AList.update request_id
               \<lparr>user_id = uid, username = uname, amount = amt, payment_method = pmethod,
                payment_address = address, status = Pending, created_at = now,
                processed_at = None, admin_note = Text ''''\<rparr>
               (payout_requests s)\<rparr>))"

definition get_user_pending_requests :: "int \<Rightarrow> state \<Rightarrow> payout_request list" where
  "get_user_pending_requests uid s =
     filter (\<lambda>req. user_id req = uid \<and> status req = Pending) (map snd (payout_requests s))"

subsection \<open>Handlers\<close>

text \<open>
  A handler takes the configuration, the clock reading, what the update carries, and the
  state; it returns the answer it sends and the state it leaves. An exception that leaves
  the handler is the answer \<open>Raised\<close>, with the state as it was when the exception
  was raised. Texts, keyboards and notifications are not modelled.
\<close>

datatype callback =
    CbTasks | CbBalance | CbPayout | CbMyRequests
  | CbPayoutMethod string
  | CbTask string
  | CbReferrals | CbHelp | CbBackToMenu

datatype reply =
    Welcome
  | DailyLimitReached
  | TaskMenu
  | BalanceInfo
  | PendingRequestsExist nat
  | InsufficientBalance
  | MethodMenu
  | RequestList
  | InsufficientForMethod string
  | AskAddress string rat
  | TaskCompleted rat
  | TaskInProgress int
  | TaskStarted
  | ReferralInfo
  | HelpInfo
  | NoReply
  | InvalidAddress
  | Submitted string
  | AccessDenied
  | Usage
  | NotFound string
  | AlreadyProcessed status
  | RequestApproved
  | RequestRejected
  | Raised py_error

definition start :: "config \<Rightarrow> rat \<Rightarrow> int \<Rightarrow> string list \<Rightarrow> state \<Rightarrow> reply \<times> state" where
  "start cfg now uid args s =
     (let (u, s1) = get_user now uid s
      in case args of
           [] \<Rightarrow> (Welcome, s1)
         | referrer_id # _ \<Rightarrow>
             (case users s1 referrer_id of
                None \<Rightarrow> (Welcome, s1)
              | Some r \<Rightarrow>
                  if referrer_id = str uid then (Welcome, s1)
                  else
                    (let s2 = s1\<lparr>users := (users s1)(referrer_id \<mapsto> r\<lparr>referrals := referrals r + 1\<rparr>)\<rparr>
                     in case int_of_str referrer_id of
                          Inl e \<Rightarrow> (Raised e, s2)
                        | Inr rid \<Rightarrow> (Welcome, add_earnings now rid (BONUS_REFERRAL cfg) s2))))"

definition min_amount_of :: "config \<Rightarrow> string \<Rightarrow> rat" where
  \<comment> \<open>\<open>PAYOUT_CONFIG.get(f"{payment_method}_min", MIN_WITHDRAW)\<close>\<close>
  "min_amount_of cfg pmethod =
     (case PAYOUT_CONFIG cfg (pmethod @ ''_min'') of None \<Rightarrow> MIN_WITHDRAW cfg | Some v \<Rightarrow> v)"

definition button_task :: "config \<Rightarrow> rat \<Rightarrow> int \<Rightarrow> string \<Rightarrow> task \<Rightarrow> state \<Rightarrow> reply \<times> state" where
  \<comment> \<open>The branch \<open>elif data in TASKS\<close> of \<open>button\<close>.\<close>
  "button_task cfg now uid task_key t s =
     (let (ok, s1) = can_earn_today cfg now uid s
      in if \<not> ok then (DailyLimitReached, s1)
         else if task_key_of uid task_key \<in> dom (user_tasks s1) then
           (case is_task_completed cfg now uid task_key s1 of
              Inl e \<Rightarrow> (Raised e, s1)
            | Inr True \<Rightarrow>
                (let s2 = add_earnings now uid (reward t) s1
                 in (TaskCompleted (reward t),
                     s2\<lparr>user_tasks := (user_tasks s2)(task_key_of uid task_key := None)\<rparr>))
            | Inr False \<Rightarrow>
                (case get_remaining_time cfg now uid task_key s1 of
                   Inl e \<Rightarrow> (Raised e, s1)
                 | Inr remaining \<Rightarrow> (TaskInProgress remaining, s1)))
         else (TaskStarted, start_task_timer now uid task_key s1))"

definition button :: "config \<Rightarrow> rat \<Rightarrow> int \<Rightarrow> callback \<Rightarrow> state \<Rightarrow> reply \<times> state" where
  "button cfg now uid data s0 =
     (let (u, s) = get_user now uid s0
      in case data of
           CbTasks \<Rightarrow>
             (let (ok, s1) = can_earn_today cfg now uid s
              in (if \<not> ok then DailyLimitReached else TaskMenu, s1))
         | CbBalance \<Rightarrow> (BalanceInfo, s)
         | CbPayout \<Rightarrow>
             (let pending_requests = get_user_pending_requests uid s
              in if pending_requests \<noteq> [] then (PendingRequestsExist (length pending_requests), s)
                 else if balance u < MIN_WITHDRAW cfg then (InsufficientBalance, s)
                 else (MethodMenu, s))
         | CbMyRequests \<Rightarrow> (RequestList, s)
         | CbPayoutMethod pmethod \<Rightarrow>
             (if balance u < min_amount_of cfg pmethod then (InsufficientForMethod pmethod, s)
              else (AskAddress pmethod (balance u),
                    s\<lparr>user_data := (user_data s)(uid \<mapsto>
                         \<lparr>payout_method = pmethod, payout_amount = balance u\<rparr>)\<rparr>))
         | CbTask task_key \<Rightarrow>
             (case TASKS cfg task_key of
                None \<Rightarrow> (NoReply, s)
              | Some t \<Rightarrow> button_task cfg now uid task_key t s)
         | CbReferrals \<Rightarrow> (ReferralInfo, s)
         | CbHelp \<Rightarrow> (HelpInfo, s)
         | CbBackToMenu \<Rightarrow> (Welcome, s))"

definition handle_payout_address ::
  "config \<Rightarrow> rat \<Rightarrow> int \<Rightarrow> int \<Rightarrow> string \<Rightarrow> string \<Rightarrow> state \<Rightarrow> reply \<times> state" where
  \<comment> \<open>\<open>address\<close> is the message text after \<open>strip()\<close>.\<close>
  "handle_payout_address cfg now rnd uid uname address s =
     (case user_data s uid of
        None \<Rightarrow> (NoReply, s)
      | Some choice \<Rightarrow>
          if length address < 5 then (InvalidAddress, s)
          else
            (let (request_id, s1) =
                   create_payout_request now rnd uid uname (payout_amount choice)
                     (payout_method choice) address s;
                 (u, s2) = get_user now uid s1;
                 s3 = s2\<lparr>users := (users s2)(str uid \<mapsto> u\<lparr>balance := 0\<rparr>)\<rparr>
             in (Submitted request_id, s3\<lparr>user_data := (user_data s3)(uid := None)\<rparr>)))"

definition admin_approve :: "config \<Rightarrow> rat \<Rightarrow> int \<Rightarrow> string list \<Rightarrow> state \<Rightarrow> reply \<times> state" where
  "admin_approve cfg now caller args s =
     (if caller \<noteq> ADMIN_ID cfg then (AccessDenied, s)
      else case args of
             [] \<Rightarrow> (Usage, s)
           | request_id # _ \<Rightarrow>
               (case map_of (payout_requests s) request_id of
                  None \<Rightarrow> (NotFound request_id, s)
                | Some req \<Rightarrow>
                    if status req \<noteq> Pending then (AlreadyProcessed (status req), s)
                    else (RequestApproved,
                          s\<lparr>payout_requests := AList.update request_id
                               (req\<lparr>status := Approved, processed_at := Some now,
                                    admin_note := ApprovedByAdminOn now\<rparr>)
                               (payout_requests s)\<rparr>)))"

definition reject_reason :: "string list \<Rightarrow> string" where
  \<comment> \<open>\<open>" ".join(context.args[1:]) if len(context.args) > 1 else "No reason provided"\<close>\<close>
  "reject_reason args = (if length args > 1 then join_space (tl args) else ''No reason provided'')"

definition admin_reject :: "config \<Rightarrow> rat \<Rightarrow> int \<Rightarrow> string list \<Rightarrow> state \<Rightarrow> reply \<times> state" where
  "admin_reject cfg now caller args s =
     (if caller \<noteq> ADMIN_ID cfg then (AccessDenied, s)
      else case args of
             [] \<Rightarrow> (Usage, s)
           | request_id # _ \<Rightarrow>
               (case map_of (payout_requests s) request_id of
                  None \<Rightarrow> (NotFound request_id, s)
                | Some req \<Rightarrow>
                    if status req \<noteq> Pending then (AlreadyProcessed (status req), s)
                    else
                      (let s1 = s\<lparr>payout_requests := AList.update request_id
                                     (req\<lparr>status := Rejected, processed_at := Some now,
                                          admin_note := Text (reject_reason args)\<rparr>)
                                     (payout_requests s)\<rparr>;
                           (u, s2) = get_user now (user_id req) s1
                       in (RequestRejected,
                           s2\<lparr>users := (users s2)(str (user_id req) \<mapsto>
                                 u\<lparr>balance := balance u + amount req\<rparr>)\<rparr>))))"


section \<open>bot_complete_vps.py, first program: the approve and reject commands\<close>

text \<open>
  The first program of the file has the same data, \<open>get_user\<close>, \<open>add_earnings\<close> and
  \<open>create_payout_request\<close> as the second, word for word, and its own two admin commands.
\<close>

definition approve_payout :: "config \<Rightarrow> rat \<Rightarrow> int \<Rightarrow> string list \<Rightarrow> state \<Rightarrow> reply \<times> state" where
  "approve_payout cfg now caller args s =
     (if caller \<noteq> ADMIN_ID cfg then (NoReply, s)
      else case args of
             [] \<Rightarrow> (Usage, s)
           | request_id # _ \<Rightarrow>
               (case map_of (payout_requests s) request_id of
                  None \<Rightarrow> (NotFound request_id, s)
                | Some req \<Rightarrow>
                    if status req \<noteq> Pending then (AlreadyProcessed (status req), s)
                    else (RequestApproved,
                          s\<lparr>payout_requests := AList.update request_id
                               (req\<lparr>status := Approved, processed_at := Some now\<rparr>)
                               (payout_requests s)\<rparr>)))"

definition reject_payout :: "config \<Rightarrow> rat \<Rightarrow> int \<Rightarrow> string list \<Rightarrow> state \<Rightarrow> reply \<times> state" where
  \<comment> \<open>After the state is saved, the notice to the user reads
      \<open>users[str(request['user_id'])]['balance']\<close>, which raises KeyError when the user
      has no record.\<close>
  "reject_payout cfg now caller args s =
     (if caller \<noteq> ADMIN_ID cfg then (NoReply, s)
      else if length args < 2 then (Usage, s)
      else
        (let request_id = hd args; reason = join_space (tl args)
         in case map_of (payout_requests s) request_id of
              None \<Rightarrow> (NotFound request_id, s)
            | Some req \<Rightarrow>
                if status req \<noteq> Pending then (AlreadyProcessed (status req), s)
                else
                  (let s1 = s\<lparr>payout_requests := AList.update request_id
                                 (req\<lparr>status := Rejected, processed_at := Some now,
                                      admin_note := Text reason\<rparr>)
                                 (payout_requests s)\<rparr>
                   in case users s1 (str (user_id req)) of
                        None \<Rightarrow> (Raised KeyError, s1)
                      | Some u \<Rightarrow>
                          (RequestRejected,
                           s1\<lparr>users := (users s1)(str (user_id req) \<mapsto>
                                 u\<lparr>balance := balance u + amount req\<rparr>)\<rparr>))))"

section \<open>Runs of the payout-request bot\<close>

text \<open>
  The updates the second program of bot_complete_vps.py handles (\<open>main\<close> registers one
  handler for each), and the state after a sequence of them. Every update comes with the
  clock reading and the random draw of its handler.
\<close>

datatype event =
    EvStart int "string list"
  | EvButton int callback
  | EvAddress int string string
  | EvApprove int "string list"
  | EvReject int "string list"

definition step :: "config \<Rightarrow> rat \<Rightarrow> int \<Rightarrow> event \<Rightarrow> state \<Rightarrow> state" where
  "step cfg now rnd ev s =
     snd (case ev of
            EvStart uid args \<Rightarrow> start cfg now uid args s
          | EvButton uid data \<Rightarrow> button cfg now uid data s
          | EvAddress uid uname address \<Rightarrow> handle_payout_address cfg now rnd uid uname address s
          | EvApprove caller args \<Rightarrow> admin_approve cfg now caller args s
          | EvReject caller args \<Rightarrow> admin_reject cfg now caller args s)"

fun run :: "config \<Rightarrow> (rat \<times> int \<times> event) list \<Rightarrow> state \<Rightarrow> state" where
  "run cfg [] s = s"
| "run cfg ((now, rnd, ev) # evs) s = run cfg evs (step cfg now rnd ev s)"

subsection \<open>Example data\<close>

definition example_config :: config where
  "example_config =
     \<lparr>ADMIN_ID = 1, MIN_WITHDRAW = 5,
      TASKS = [''like'' \<mapsto> \<lparr>reward = 5, wait = 30\<rparr>],
      DAILY_LIMIT = 100, BONUS_REFERRAL = 1, PAYOUT_CONFIG = Map.empty\<rparr>"

definition example_user :: user where
  "example_user =
     \<lparr>balance = 0, total_earned = 10, tasks_completed = 10, referrals = 0,
      daily_earned = 10, last_activity = 50, joined = 0\<rparr>"

definition example_request :: "status \<Rightarrow> payout_request" where
  "example_request st =
     \<lparr>user_id = 7, username = ''ann'', amount = 10, payment_method = ''faucetpay'',
      payment_address = ''ann@example.org'', status = st, created_at = 100,
      processed_at = None, admin_note = Text []\<rparr>"

definition example_state :: "status \<Rightarrow> state" where
  \<comment> \<open>User 7 with one payout request of 10 in the given status.\<close>
  "example_state st =
     \<lparr>users = [''7'' \<mapsto> example_user],
      payout_requests = [(''REQ_100_1234'', example_request st)],
      user_tasks = Map.empty, user_data = Map.empty\<rparr>"

definition orphan_state :: state where
  \<comment> \<open>A pending request of user 7, who has no record in \<open>users\<close>.\<close>
  "orphan_state =
     \<lparr>users = Map.empty,
      payout_requests = [(''REQ_100_1234'', example_request Pending)],
      user_tasks = Map.empty, user_data = Map.empty\<rparr>"


section \<open>bot.py: the withdrawal bot\<close>

subsection \<open>Data\<close>

record bot_user =
  b_username :: string
  b_name :: string
  b_balance :: rat
  b_ref :: "string option"
  completed_tasks :: "string list"
  last_reset :: int
  join_date :: rat

record withdrawal =
  w_uid :: string
  w_username :: string
  w_method :: string
  w_account :: string
  w_amount :: rat
  w_timestamp :: rat
  w_status :: status

text \<open>
  The constants of bot.py's config.json: here \<open>min_withdraw\<close> is a dictionary from the
  payment method to its minimum, and \<open>daily_limit\<close> is a number of tasks.
\<close>

record bot_config =
  B_ADMIN_ID :: int
  B_MIN_WITHDRAW :: "string \<rightharpoonup> rat"
  B_TASKS :: "string \<rightharpoonup> task"
  B_DAILY_LIMIT :: int
  B_BONUS_REFERRAL :: rat

record bot_state =
  b_users :: "string \<rightharpoonup> bot_user"
  withdrawals :: "withdrawal list"
  b_user_tasks :: "string \<rightharpoonup> (string \<rightharpoonup> rat)"

definition bot_fresh :: bot_state where
  "bot_fresh = \<lparr>b_users = Map.empty, withdrawals = [], b_user_tasks = Map.empty\<rparr>"

subsection \<open>Helper functions\<close>

definition reset_daily_tasks :: "rat \<Rightarrow> bot_state \<Rightarrow> bot_state" where
  "reset_daily_tasks now s =
     s\<lparr>b_users := (\<lambda>uid.
          map_option
            (\<lambda>u. if last_reset u \<noteq> date_of now
                 then u\<lparr>completed_tasks := [], last_reset := date_of now\<rparr> else u)
            (b_users s uid))\<rparr>"

definition started_at :: "bot_state \<Rightarrow> int \<Rightarrow> string \<Rightarrow> rat option" where
  \<comment> \<open>The entry \<open>user_tasks[str(uid)][task_key]\<close>, when both keys are present.\<close>
  "started_at s uid task_key =
     (case b_user_tasks s (str uid) of None \<Rightarrow> None | Some m \<Rightarrow> m task_key)"

definition bot_is_task_completed ::
  "bot_config \<Rightarrow> rat \<Rightarrow> int \<Rightarrow> string \<Rightarrow> bot_state \<Rightarrow> py_error + bool" where
  "bot_is_task_completed cfg now uid task_key s =
     (case started_at s uid task_key of
        None \<Rightarrow> Inr False
      | Some task_start_time \<Rightarrow>
          (case B_TASKS cfg task_key of
             None \<Rightarrow> Inl KeyError
           | Some t \<Rightarrow> Inr (now - task_start_time \<ge> of_int (wait t))))"

definition bot_start_task_timer :: "rat \<Rightarrow> int \<Rightarrow> string \<Rightarrow> bot_state \<Rightarrow> bot_state" where
  "bot_start_task_timer now uid task_key s =
     (let m = (case b_user_tasks s (str uid) of None \<Rightarrow> Map.empty | Some m \<Rightarrow> m)
      in s\<lparr>b_user_tasks := (b_user_tasks s)(str uid \<mapsto> m(task_key \<mapsto> now))\<rparr>)"

definition bot_get_remaining_time ::
  "bot_config \<Rightarrow> rat \<Rightarrow> int \<Rightarrow> string \<Rightarrow> bot_state \<Rightarrow> py_error + int" where
  "bot_get_remaining_time cfg now uid task_key s =
     (case B_TASKS cfg task_key of
        None \<Rightarrow> Inl KeyError
      | Some t \<Rightarrow>
          (case started_at s uid task_key of
             None \<Rightarrow> Inr (wait t)
           | Some task_start_time \<Rightarrow>
               Inr (py_int (max 0 (of_int (wait t) - (now - task_start_time))))))"

subsection \<open>Handlers\<close>

datatype bot_callback = BcTask string | BcVerify string | BcOther

datatype bot_message = WithdrawText string string "rat option" | OtherText
  \<comment> \<open>A message of three words: the method in lower case, the account, and the amount as
      \<open>float\<close> reads it (None when \<open>float\<close> raises); or any other text.\<close>

datatype bot_reply =
    BWelcome
  | BDailyLimitReached
  | BAlreadyCompleted
  | BTaskStarted
  | BPleaseWait int
  | BTaskCompleted rat
  | BInfo
  | BErrorOccurred
  | BUseStartFirst
  | BInvalidAmount
  | BInvalidMethod
  | BBelowMinimum
  | BInsufficientBalance
  | BWithdrawalSubmitted
  | BUnknownCommand

definition new_bot_user :: "rat \<Rightarrow> string \<Rightarrow> string \<Rightarrow> string option \<Rightarrow> bot_user" where
  "new_bot_user now uname name ref =
     \<lparr>b_username = uname, b_name = name, b_balance = 0, b_ref = ref, completed_tasks = [],
      last_reset = date_of now, join_date = now\<rparr>"

definition referral_bonus :: "bot_config \<Rightarrow> string option \<Rightarrow> bot_state \<Rightarrow> bot_state" where
  \<comment> \<open>The block \<open>if ref and ref.isdigit()\<close> of \<open>start\<close>.\<close>
  "referral_bonus cfg ref s =
     (case ref of
        None \<Rightarrow> s
      | Some r \<Rightarrow>
          if isdigit r then
            (case b_users s r of
               None \<Rightarrow> s
             | Some u \<Rightarrow>
                 s\<lparr>b_users := (b_users s)(r \<mapsto> u\<lparr>b_balance := b_balance u + B_BONUS_REFERRAL cfg\<rparr>)\<rparr>)
          else s)"

definition bot_start ::
  "bot_config \<Rightarrow> rat \<Rightarrow> int \<Rightarrow> string \<Rightarrow> string \<Rightarrow> string option \<Rightarrow> bot_state
     \<Rightarrow> bot_reply \<times> bot_state" where
  "bot_start cfg now uid uname name ref s =
     (let s1 = (if str uid \<notin> dom (b_users s)
                then referral_bonus cfg ref
                       (s\<lparr>b_users := (b_users s)(str uid \<mapsto> new_bot_user now uname name ref)\<rparr>)
                else s)
      in (BWelcome, reset_daily_tasks now s1))"

definition verify :: "bot_config \<Rightarrow> rat \<Rightarrow> int \<Rightarrow> string \<Rightarrow> bot_state \<Rightarrow> bot_reply \<times> bot_state" where
  \<comment> \<open>The branch \<open>elif data.startswith("verify_")\<close> of \<open>handle_callback\<close>, entered with the
      user present; \<open>task_key\<close> is the callback data without \<open>verify_\<close>.\<close>
  "verify cfg now uid task_key s =
     (case B_TASKS cfg task_key of
        None \<Rightarrow> (BErrorOccurred, s)
      | Some t \<Rightarrow>
          (case bot_is_task_completed cfg now uid task_key s of
             Inl e \<Rightarrow> (BErrorOccurred, s)
           | Inr False \<Rightarrow>
               (case bot_get_remaining_time cfg now uid task_key s of
                  Inl e \<Rightarrow> (BErrorOccurred, s)
                | Inr remaining \<Rightarrow> (BPleaseWait remaining, s))
           | Inr True \<Rightarrow>
               (case b_users s (str uid) of
                  None \<Rightarrow> (BErrorOccurred, s)
                | Some u \<Rightarrow>
                    (let s1 = s\<lparr>b_users := (b_users s)(str uid \<mapsto>
                                   u\<lparr>completed_tasks := completed_tasks u @ [task_key],
                                     b_balance := b_balance u + reward t\<rparr>)\<rparr>;
                         s2 = (case b_user_tasks s1 (str uid) of
                                 None \<Rightarrow> s1
                               | Some m \<Rightarrow>
                                   s1\<lparr>b_user_tasks :=
                                        (b_user_tasks s1)(str uid \<mapsto> m(task_key := None))\<rparr>)
                     in (BTaskCompleted (reward t), s2)))))"

definition ensure_user :: "rat \<Rightarrow> int \<Rightarrow> string \<Rightarrow> string \<Rightarrow> bot_state \<Rightarrow> bot_state" where
  \<comment> \<open>The block \<open>if uid_str not in users\<close> at the head of \<open>handle_callback\<close>.\<close>
  "ensure_user now uid uname name s =
     (if str uid \<notin> dom (b_users s)
      then s\<lparr>b_users := (b_users s)(str uid \<mapsto> new_bot_user now uname name None)\<rparr>
      else s)"

definition handle_callback ::
  "bot_config \<Rightarrow> rat \<Rightarrow> int \<Rightarrow> string \<Rightarrow> string \<Rightarrow> bot_callback \<Rightarrow> bot_state
     \<Rightarrow> bot_reply \<times> bot_state" where
  "handle_callback cfg now uid uname name data s0 =
     (let s = reset_daily_tasks now (ensure_user now uid uname name s0)
      in case data of
           BcTask task_key \<Rightarrow>
             (case B_TASKS cfg task_key of
                None \<Rightarrow> (BInfo, s)
              | Some t \<Rightarrow>
                  (case b_users s (str uid) of
                     None \<Rightarrow> (BErrorOccurred, s)
                   | Some u \<Rightarrow>
                       if int (length (completed_tasks u)) \<ge> B_DAILY_LIMIT cfg
                       then (BDailyLimitReached, s)
                       else if task_key \<in> set (completed_tasks u) then (BAlreadyCompleted, s)
                       else (BTaskStarted, bot_start_task_timer now uid task_key s)))
         | BcVerify task_key \<Rightarrow> verify cfg now uid task_key s
         | BcOther \<Rightarrow> (BInfo, s))"

definition handle_message ::
  "bot_config \<Rightarrow> rat \<Rightarrow> int \<Rightarrow> bot_message \<Rightarrow> bot_state \<Rightarrow> bot_reply \<times> bot_state" where
  "handle_message cfg now uid msg s =
     (case b_users s (str uid) of
        None \<Rightarrow> (BUseStartFirst, s)
      | Some u \<Rightarrow>
          (case msg of
             OtherText \<Rightarrow> (BUnknownCommand, s)
           | WithdrawText pmethod account None \<Rightarrow> (BInvalidAmount, s)
           | WithdrawText pmethod account (Some amt) \<Rightarrow>
               (case B_MIN_WITHDRAW cfg pmethod of
                  None \<Rightarrow> (BInvalidMethod, s)
                | Some minimum \<Rightarrow>
                    if amt < minimum then (BBelowMinimum, s)
                    else if b_balance u < amt then (BInsufficientBalance, s)
                    else
                      (BWithdrawalSubmitted,
                       s\<lparr>b_users := (b_users s)(str uid \<mapsto> u\<lparr>b_balance := b_balance u - amt\<rparr>),
                         withdrawals := withdrawals s @
                           [\<lparr>w_uid = str uid, w_username = b_username u, w_method = pmethod,
                             w_account = account, w_amount = amt, w_timestamp = now,
                             w_status = Pending\<rparr>]\<rparr>))))"

datatype bot_event =
    BEvStart int string string "string option"
  | BEvCallback int string string bot_callback
  | BEvMessage int bot_message

definition bot_step :: "bot_config \<Rightarrow> rat \<Rightarrow> bot_event \<Rightarrow> bot_state \<Rightarrow> bot_state" where
  "bot_step cfg now ev s =
     snd (case ev of
            BEvStart uid uname name ref \<Rightarrow> bot_start cfg now uid uname name ref s
          | BEvCallback uid uname name data \<Rightarrow> handle_callback cfg now uid uname name data s
          | BEvMessage uid msg \<Rightarrow> handle_message cfg now uid msg s)"

fun bot_run :: "bot_config \<Rightarrow> (rat \<times> bot_event) list \<Rightarrow> bot_state \<Rightarrow> bot_state" where
  "bot_run cfg [] s = s"
| "bot_run cfg ((now, ev) # evs) s = bot_run cfg evs (bot_step cfg now ev s)"

definition example_bot_config :: bot_config where
  "example_bot_config =
     \<lparr>B_ADMIN_ID = 1, B_MIN_WITHDRAW = [''payeer'' \<mapsto> 1],
      B_TASKS = [''like'' \<mapsto> \<lparr>reward = 5, wait = 30\<rparr>],
      B_DAILY_LIMIT = 10, B_BONUS_REFERRAL = 1\<rparr>"


section \<open>The API-backed bot (bot (11).py)\<close>

subsection \<open>Data\<close>

text \<open>
  This program keeps the users on a REST backend and only the running task timers in
  memory. A user is the JSON object the backend returns; \<open>lastActivity\<close> is None when
  the key is absent, empty or not an ISO date.
\<close>

record api_user =
  a_balance :: rat
  totalEarned :: rat
  dailyEarned :: rat
  tasksCompleted :: int
  a_referrals :: int
  lastActivity :: "rat option"

record api_task =
  a_key :: string
  waitTime :: "int option"

record api_state =
  api_users :: "string \<rightharpoonup> api_user"
  active_tasks :: "string \<rightharpoonup> (string \<rightharpoonup> rat)"

record earnings_update =
  new_balance :: rat
  new_totalEarned :: rat
  new_dailyEarned :: rat
  new_tasksCompleted :: int

text \<open>
  Modelled from the spec: the backend behind \<open>API_BASE_URL\<close> is not part of the sources.
  Following the Ledger Store of the spec (a key-value store of users by id), \<open>GET
  /users/id\<close> returns the stored user, or nothing when there is none, and \<open>PATCH
  /users/id\<close> overwrites the fields it is given on a stored user and returns the result.
  \<open>earnings_update\<close> is the dictionary \<open>updates\<close> that \<open>add_user_earnings\<close> sends.
\<close>

definition api_get_user :: "string \<Rightarrow> api_state \<Rightarrow> api_user option" where
  "api_get_user uid s = api_users s uid"

definition api_patch_user :: "string \<Rightarrow> earnings_update \<Rightarrow> api_state \<Rightarrow> bool \<times> api_state" where
  "api_patch_user uid upd s =
     (case api_users s uid of
        None \<Rightarrow> (False, s)
      | Some u \<Rightarrow>
          (True, s\<lparr>api_users := (api_users s)(uid \<mapsto>
                    u\<lparr>a_balance := new_balance upd, totalEarned := new_totalEarned upd,
                      dailyEarned := new_dailyEarned upd,
                      tasksCompleted := new_tasksCompleted upd\<rparr>)\<rparr>))"

subsection \<open>TaskManager\<close>

definition tm_started :: "api_state \<Rightarrow> string \<Rightarrow> string \<Rightarrow> rat option" where
  \<comment> \<open>\<open>self.active_tasks[user_id][task_key]\<close>, when both keys are present.\<close>
  "tm_started s uid task_key =
     (case active_tasks s uid of None \<Rightarrow> None | Some m \<Rightarrow> m task_key)"

definition tm_start_task :: "rat \<Rightarrow> string \<Rightarrow> string \<Rightarrow> api_state \<Rightarrow> api_state" where
  \<comment> \<open>The timer part of \<open>TaskManager.start_task\<close>; the POST to the backend that follows
      does not touch the timers.\<close>
  "tm_start_task now uid task_key s =
     (let m = (case active_tasks s uid of None \<Rightarrow> Map.empty | Some m \<Rightarrow> m)
      in s\<lparr>active_tasks := (active_tasks s)(uid \<mapsto> m(task_key \<mapsto> now))\<rparr>)"

definition tm_is_task_completed :: "rat \<Rightarrow> string \<Rightarrow> string \<Rightarrow> int \<Rightarrow> api_state \<Rightarrow> bool" where
  "tm_is_task_completed now uid task_key wait_time s =
     (case tm_started s uid task_key of
        None \<Rightarrow> False
      | Some t0 \<Rightarrow> now - t0 \<ge> of_int wait_time)"

definition tm_get_remaining_time :: "rat \<Rightarrow> string \<Rightarrow> string \<Rightarrow> int \<Rightarrow> api_state \<Rightarrow> int" where
  "tm_get_remaining_time now uid task_key wait_time s =
     (case tm_started s uid task_key of
        None \<Rightarrow> 0
      | Some t0 \<Rightarrow> max 0 (py_int (of_int wait_time - (now - t0))))"

definition tm_complete_task :: "string \<Rightarrow> string \<Rightarrow> api_state \<Rightarrow> api_state" where
  "tm_complete_task uid task_key s =
     (case active_tasks s uid of
        None \<Rightarrow> s
      | Some m \<Rightarrow> s\<lparr>active_tasks := (active_tasks s)(uid \<mapsto> m(task_key := None))\<rparr>)"

subsection \<open>Earnings\<close>

definition api_can_earn_today :: "rat \<Rightarrow> api_user \<Rightarrow> rat \<Rightarrow> bool" where
  \<comment> \<open>\<open>can_earn_today(user, daily_limit)\<close> of this program.\<close>
  "api_can_earn_today now u daily_limit =
     (case lastActivity u of
        Some seen \<Rightarrow> if date_of seen < date_of now then True else dailyEarned u < daily_limit
      | None \<Rightarrow> dailyEarned u < daily_limit)"

definition earnings_updates :: "api_user \<Rightarrow> rat \<Rightarrow> earnings_update" where
  "earnings_updates u amt =
     \<lparr>new_balance = a_balance u + amt, new_totalEarned = totalEarned u + amt,
      new_dailyEarned = dailyEarned u + amt, new_tasksCompleted = tasksCompleted u + 1\<rparr>"

definition add_user_earnings :: "string \<Rightarrow> rat \<Rightarrow> api_state \<Rightarrow> bool \<times> api_state" where
  "add_user_earnings uid amt s =
     (case api_get_user uid s of
        None \<Rightarrow> (False, s)
      | Some u \<Rightarrow> api_patch_user uid (earnings_updates u amt) s)"

subsection \<open>Claiming a task\<close>

datatype claim_reply =
    TaskNotFound
  | PleaseWaitMore int
  | TaskNotStartedYet
  | Congratulations rat
  | RewardFailed

definition find_task :: "api_task list \<Rightarrow> string \<Rightarrow> api_task option" where
  "find_task tasks task_key = List.find (\<lambda>t. a_key t = task_key) tasks"

definition wait_time_of :: "api_task \<Rightarrow> int" where
  \<comment> \<open>\<open>task.get('waitTime', 30)\<close>\<close>
  "wait_time_of t = (case waitTime t of None \<Rightarrow> 30 | Some w \<Rightarrow> w)"

definition reward_of :: "(string \<rightharpoonup> rat) \<Rightarrow> string \<Rightarrow> rat" where
  \<comment> \<open>\<open>task_rewards.get(task_key, 0)\<close>\<close>
  "reward_of task_rewards task_key = (case task_rewards task_key of None \<Rightarrow> 0 | Some r \<Rightarrow> r)"

definition handle_task_claim ::
  "api_task list \<Rightarrow> (string \<rightharpoonup> rat) \<Rightarrow> rat \<Rightarrow> string \<Rightarrow> string \<Rightarrow> api_state
     \<Rightarrow> claim_reply \<times> api_state" where
  \<comment> \<open>\<open>tasks\<close> is what \<open>GET /tasks\<close> returned and \<open>task_rewards\<close> the rewards of the bot
      settings; \<open>task_key\<close> is the callback data without \<open>claim_task_\<close>.\<close>
  "handle_task_claim tasks task_rewards now uid task_key s =
     (case find_task tasks task_key of
        None \<Rightarrow> (TaskNotFound, s)
      | Some t \<Rightarrow>
          (let wait_time = wait_time_of t;
               rwd = reward_of task_rewards task_key
           in if \<not> tm_is_task_completed now uid task_key wait_time s then
                (let remaining_time = tm_get_remaining_time now uid task_key wait_time s
                 in if remaining_time > 0 then (PleaseWaitMore remaining_time, s)
                    else (TaskNotStartedYet, s))
              else
                (let (success, s1) = add_user_earnings uid rwd s
                 in if success then (Congratulations rwd, tm_complete_task uid task_key s1)
                    else (RewardFailed, s1))))"

definition example_api_user :: api_user where
  "example_api_user =
     \<lparr>a_balance = 0, totalEarned = 0, dailyEarned = 0, tasksCompleted = 0, a_referrals = 0,
      lastActivity = None\<rparr>"

definition example_api_state :: api_state where
  "example_api_state = \<lparr>api_users = [''7'' \<mapsto> example_api_user], active_tasks = Map.empty\<rparr>"

definition example_tasks :: "api_task list" where
  "example_tasks = [\<lparr>a_key = ''like'', waitTime = Some 30\<rparr>]"


section \<open>Invariants and example runs\<close>

definition rewards_nonneg :: "config \<Rightarrow> bool" where
  \<comment> \<open>The referral bonus and every task reward of the configuration are at least 0.\<close>
  "rewards_nonneg cfg =
     (0 \<le> BONUS_REFERRAL cfg \<and> (\<forall>k t. TASKS cfg k = Some t \<longrightarrow> 0 \<le> reward t))"

definition balances_ok :: "state \<Rightarrow> bool" where
  \<comment> \<open>No balance, no amount of a stored request and no amount kept for a chosen payout
      method is negative.\<close>
  "balances_ok s =
     ((\<forall>k u. users s k = Some u \<longrightarrow> 0 \<le> balance u)
      \<and> (\<forall>rid r. map_of (payout_requests s) rid = Some r \<longrightarrow> 0 \<le> amount r)
      \<and> (\<forall>uid c. user_data s uid = Some c \<longrightarrow> 0 \<le> payout_amount c))"

definition bot_rewards_nonneg :: "bot_config \<Rightarrow> bool" where
  "bot_rewards_nonneg cfg =
     (0 \<le> B_BONUS_REFERRAL cfg \<and> (\<forall>k t. B_TASKS cfg k = Some t \<longrightarrow> 0 \<le> reward t))"

definition bot_balances_ok :: "bot_state \<Rightarrow> bool" where
  "bot_balances_ok s = (\<forall>k u. b_users s k = Some u \<longrightarrow> 0 \<le> b_balance u)"

definition example_events :: "(rat \<times> int \<times> event) list" where
  \<comment> \<open>User 7 joins, starts the task "like" and claims it 40 seconds later.\<close>
  "example_events =
     [(0, 1000, EvStart 7 []),
      (10, 1000, EvButton 7 (CbTask ''like'')),
      (50, 1000, EvButton 7 (CbTask ''like''))]"

definition example_bot_events :: "(rat \<times> bot_event) list" where
  \<comment> \<open>User 7 joins, starts "like", verifies it 40 seconds later and withdraws the reward.\<close>
  "example_bot_events =
     [(0, BEvStart 7 ''ann'' ''Ann'' None),
      (10, BEvCallback 7 ''ann'' ''Ann'' (BcTask ''like'')),
      (50, BEvCallback 7 ''ann'' ''Ann'' (BcVerify ''like'')),
      (60, BEvMessage 7 (WithdrawText ''payeer'' ''P1'' (Some 1)))]"


subsection \<open>States with a running task timer\<close>

definition example_bot_state :: bot_state where
  "example_bot_state =
     \<lparr>b_users = [''7'' \<mapsto> new_bot_user 0 ''ann'' ''Ann'' None], withdrawals = [],
      b_user_tasks = Map.empty\<rparr>"

definition example_api_timed :: api_state where
  "example_api_timed = tm_start_task 10 ''7'' ''like'' example_api_state"

definition example_bot_timed :: bot_state where
  "example_bot_timed = bot_start_task_timer 10 7 ''like'' example_bot_state"

definition example_timed_state :: state where
  "example_timed_state = start_task_timer 10 7 ''like'' (example_state Approved)"


subsection \<open>Runs that show where the programs differ from the specification\<close>

definition referral_events :: "(rat \<times> int \<times> event) list" where
  \<comment> \<open>User 42 joins; later user 7 joins through the referral link of user 42.\<close>
  "referral_events = [(0, 1000, EvStart 42 []), (100, 1000, EvStart 7 [''42''])]"

definition stale_amount_events :: "(rat \<times> int \<times> event) list" where
  \<comment> \<open>User 7 earns 10 with two tasks, chooses the payout method, and earns 5 more before
      sending the address.\<close>
  "stale_amount_events =
     [(0, 1000, EvStart 7 []),
      (10, 1000, EvButton 7 (CbTask ''like'')),
      (50, 1000, EvButton 7 (CbTask ''like'')),
      (60, 1000, EvButton 7 (CbTask ''like'')),
      (100, 1000, EvButton 7 (CbTask ''like'')),
      (110, 1000, EvButton 7 (CbPayoutMethod ''faucetpay'')),
      (120, 1000, EvButton 7 (CbTask ''like'')),
      (160, 1000, EvButton 7 (CbTask ''like''))]"

definition address_event :: "rat \<Rightarrow> rat \<times> int \<times> event" where
  "address_event now = (now, 1000, EvAddress 7 ''ann'' ''ann@example.org'')"

definition second_request_events :: "(rat \<times> int \<times> event) list" where
  \<comment> \<open>User 7 earns 5, requests a payout, earns 5 again and presses the method button of an
      earlier payout menu, then sends an address once more.\<close>
  "second_request_events =
     [(0, 1000, EvStart 7 []),
      (10, 1000, EvButton 7 (CbTask ''like'')),
      (50, 1000, EvButton 7 (CbTask ''like'')),
      (60, 1000, EvButton 7 CbPayout),
      (70, 1000, EvButton 7 (CbPayoutMethod ''faucetpay'')),
      address_event 80,
      (90, 1000, EvButton 7 (CbTask ''like'')),
      (130, 1000, EvButton 7 (CbTask ''like'')),
      (140, 1000, EvButton 7 (CbPayoutMethod ''faucetpay'')),
      address_event 150]"

definition next_day_referral_events :: "(rat \<times> int \<times> event) list" where
  \<comment> \<open>User 42 earns 5 on day 0; on day 1 user 7 joins through the referral link of 42.\<close>
  "next_day_referral_events =
     [(0, 1000, EvStart 42 []),
      (10, 1000, EvButton 42 (CbTask ''like'')),
      (50, 1000, EvButton 42 (CbTask ''like'')),
      (86500, 1000, EvStart 7 [''42''])]"

definition collision_events :: "(rat \<times> int \<times> event) list" where
  \<comment> \<open>Users 7 and 8 each earn 5 and choose a payout method; user 7 sends the address at
      100.2 seconds, when the random suffix drawn for the request id is 1234.\<close>
  "collision_events =
     [(0, 1000, EvStart 7 []),
      (1, 1000, EvStart 8 []),
      (10, 1000, EvButton 7 (CbTask ''like'')),
      (11, 1000, EvButton 8 (CbTask ''like'')),
      (50, 1000, EvButton 7 (CbTask ''like'')),
      (51, 1000, EvButton 8 (CbTask ''like'')),
      (60, 1000, EvButton 7 (CbPayoutMethod ''faucetpay'')),
      (61, 1000, EvButton 8 (CbPayoutMethod ''payeer'')),
      (501 / 5, 1234, EvAddress 7 ''ann'' ''ann@example.org'')]"

definition colliding_address :: "rat \<times> int \<times> event" where
  \<comment> \<open>User 8 sends the address at 100.8 seconds, and the suffix drawn is 1234 again.\<close>
  "colliding_address = (504 / 5, 1234, EvAddress 8 ''bob'' ''P1234567'')"

definition early_approval :: "rat \<times> int \<times> event" where
  \<comment> \<open>The admin approves the request of user 7 at 100.4 seconds.\<close>
  "early_approval = (502 / 5, 1000, EvApprove 1 [''REQ_100_1234''])"

definition yesterday_api_state :: api_state where
  \<comment> \<open>User 7 who earned 5 on day 0.\<close>
  "yesterday_api_state =
     \<lparr>api_users = [''7'' \<mapsto> example_api_user\<lparr>dailyEarned := 5, lastActivity := Some 0\<rparr>],
      active_tasks = Map.empty\<rparr>"

definition request_summary :: "state \<Rightarrow> (string \<times> int \<times> rat \<times> status) list" where
  \<comment> \<open>Id, user, amount and status of every stored payout request, in order.\<close>
  "request_summary s = map (\<lambda>(k, r). (k, user_id r, amount r, status r)) (payout_requests s)"


section \<open>Properties\<close>

subsection \<open>Evaluation of the primitives\<close>

lemma str_7 [simp]: "str 7 = ''7''"
  by code_simp

lemma example_request_id [simp]: "generate_request_id 100 1234 = ''REQ_100_1234''"
  by code_simp

subsection \<open>What the utility functions leave alone\<close>

lemma get_user_frame [simp]:
  "payout_requests (snd (get_user now uid s)) = payout_requests s"
  "user_data (snd (get_user now uid s)) = user_data s"
  "user_tasks (snd (get_user now uid s)) = user_tasks s"
  by (auto simp: get_user_def split: option.splits)

lemma can_earn_today_frame [simp]:
  "payout_requests (snd (can_earn_today cfg now uid s)) = payout_requests s"
  "user_data (snd (can_earn_today cfg now uid s)) = user_data s"
  "user_tasks (snd (can_earn_today cfg now uid s)) = user_tasks s"
  by (simp_all add: can_earn_today_def Let_def split_def)

lemma add_earnings_frame [simp]:
  "payout_requests (add_earnings now uid amt s) = payout_requests s"
  "user_data (add_earnings now uid amt s) = user_data s"
  "user_tasks (add_earnings now uid amt s) = user_tasks s"
  by (simp_all add: add_earnings_def Let_def split_def)

lemma start_requests: "payout_requests (snd (start cfg now uid args s)) = payout_requests s"
  by (simp add: start_def Let_def split_def split: list.splits option.splits sum.splits)

lemma button_task_requests:
  "payout_requests (snd (button_task cfg now uid k t s)) = payout_requests s"
  by (simp add: button_task_def Let_def split_def start_task_timer_def
      split: sum.splits bool.splits)

lemma button_requests: "payout_requests (snd (button cfg now uid data s)) = payout_requests s"
  by (simp add: button_def Let_def split_def button_task_requests
      split: callback.splits option.splits)

lemma address_requests:
  "payout_requests (snd (handle_payout_address cfg now rnd uid uname address s)) = payout_requests s
   \<or> (\<exists>r. payout_requests (snd (handle_payout_address cfg now rnd uid uname address s))
        = AList.update (generate_request_id now rnd) r (payout_requests s))"
  by (auto simp: handle_payout_address_def Let_def split_def create_payout_request_def
      split: option.splits)

lemma approve_requests:
  assumes "map_of (payout_requests s) rid = Some r"
  shows "\<exists>r'. map_of (payout_requests (snd (admin_approve cfg now caller args s))) rid = Some r'
          \<and> (r' = r \<or> status r = Pending \<and> status r' = Approved)"
  using assms
  by (auto simp: admin_approve_def update_conv' split: list.splits option.splits)

lemma reject_requests:
  assumes "map_of (payout_requests s) rid = Some r"
  shows "\<exists>r'. map_of (payout_requests (snd (admin_reject cfg now caller args s))) rid = Some r'
          \<and> (r' = r \<or> status r = Pending \<and> status r' = Rejected)"
  using assms
  by (auto simp: admin_reject_def update_conv' Let_def split_def split: list.splits option.splits)

lemma step_requests:
  assumes "map_of (payout_requests s) rid = Some r"
    and "rid \<noteq> generate_request_id now rnd"
  shows "\<exists>r'. map_of (payout_requests (step cfg now rnd ev s)) rid = Some r'
            \<and> (r' = r \<or> status r = Pending \<and> (status r' = Approved \<or> status r' = Rejected))"
proof (cases ev)
  case (EvStart uid args)
  then show ?thesis using assms by (simp add: step_def start_requests)
next
  case (EvButton uid data)
  then show ?thesis using assms by (simp add: step_def button_requests)
next
  case (EvAddress uid uname address)
  then show ?thesis using assms address_requests[of cfg now rnd uid uname address s]
    by (auto simp: step_def update_conv')
next
  case (EvApprove caller args)
  then show ?thesis using approve_requests[OF assms(1), of cfg now caller args]
    by (auto simp: step_def)
next
  case (EvReject caller args)
  then show ?thesis using reject_requests[OF assms(1), of cfg now caller args]
    by (auto simp: step_def)
qed

lemma processed_is_final:
  assumes "map_of (payout_requests s) rid = Some r" and "status r \<noteq> Pending"
  shows "admin_approve cfg now (ADMIN_ID cfg) (rid # ws) s = (AlreadyProcessed (status r), s)"
    and "admin_reject cfg now (ADMIN_ID cfg) (rid # ws) s = (AlreadyProcessed (status r), s)"
    and "approve_payout cfg now (ADMIN_ID cfg) (rid # ws) s = (AlreadyProcessed (status r), s)"
    and "reject_payout cfg now (ADMIN_ID cfg) (rid # w # ws) s = (AlreadyProcessed (status r), s)"
  using assms
  by (simp_all add: admin_approve_def admin_reject_def approve_payout_def reject_payout_def)

subsection \<open>The payout request's states\<close>

text \<open>
  As long as no new request is generated under the id of a stored request, the stored
  request stays stored under every update the bot handles, and its record either stays as
  it is or goes from pending to approved or from pending to rejected. Approved and
  rejected are then final: the admin's approve and reject commands on a request that is
  not pending answer that it is already processed and change nothing in the state, in
  both programs of the file. The hypothesis on the id is needed: \<open>create_payout_request\<close>
  assigns \<open>payout_requests[request_id]\<close> without looking whether the id is in use.
\<close>

lemma requests_without_collision:
  assumes "map_of (payout_requests s) rid = Some r"
    and "rid \<noteq> generate_request_id now rnd"
  shows "(\<exists>r'. map_of (payout_requests (step cfg now rnd ev s)) rid = Some r'
            \<and> (r' = r \<or> status r = Pending \<and> (status r' = Approved \<or> status r' = Rejected)))
       \<and> (status r \<noteq> Pending \<longrightarrow>
            admin_approve cfg now (ADMIN_ID cfg) (rid # ws) s = (AlreadyProcessed (status r), s)
          \<and> admin_reject cfg now (ADMIN_ID cfg) (rid # ws) s = (AlreadyProcessed (status r), s)
          \<and> approve_payout cfg now (ADMIN_ID cfg) (rid # ws) s = (AlreadyProcessed (status r), s)
          \<and> reject_payout cfg now (ADMIN_ID cfg) (rid # w # ws) s
              = (AlreadyProcessed (status r), s))"
  using step_requests[OF assms] processed_is_final[OF assms(1)] by blast

lemma requests_without_collision_example:
  "map_of (payout_requests (example_state Rejected)) ''REQ_100_1234'' = Some (example_request Rejected)
   \<and> ''REQ_100_1234'' \<noteq> generate_request_id 200 1234
   \<and> status (example_request Rejected) \<noteq> Pending
   \<and> map_of (payout_requests
        (step example_config 200 1234 (EvApprove 1 [''REQ_100_1234'']) (example_state Rejected)))
        ''REQ_100_1234'' = Some (example_request Rejected)
   \<and> admin_approve example_config 200 (ADMIN_ID example_config) [''REQ_100_1234'']
        (example_state Rejected) = (AlreadyProcessed Rejected, example_state Rejected)
   \<and> admin_reject example_config 200 (ADMIN_ID example_config) [''REQ_100_1234'']
        (example_state Rejected) = (AlreadyProcessed Rejected, example_state Rejected)"
proof -
  have h1: "map_of (payout_requests (example_state Rejected)) ''REQ_100_1234''
              = Some (example_request Rejected)"
    by (simp add: example_state_def)
  have h2: "''REQ_100_1234'' \<noteq> generate_request_id 200 1234"
    by code_simp
  have h3: "status (example_request Rejected) \<noteq> Pending"
    by (simp add: example_request_def)
  from requests_without_collision[OF h1 h2, of example_config "EvApprove 1 [''REQ_100_1234'']" "[]"]
  show ?thesis using h1 h2 h3 by (auto simp: example_request_def)
qed

subsection \<open>Rejection gives the balance back\<close>

text \<open>
  Claim C6. When the admin rejects a pending payout request of a user who has a record,
  the users dictionary afterwards differs from the one before in that user's balance
  alone, which has grown by the amount of the request: total_earned, daily_earned,
  tasks_completed, referrals, last_activity and joined are as before. This holds for
  \<open>admin_reject\<close> and for \<open>reject_payout\<close> of the first program.
\<close>

theorem reject_restores_balance_only:
  assumes "map_of (payout_requests s) request_id = Some req"
    and "status req = Pending"
    and "users s (str (user_id req)) = Some u"
  shows "users (snd (admin_reject cfg now (ADMIN_ID cfg) (request_id # ws) s))
           = (users s)(str (user_id req) \<mapsto> u\<lparr>balance := balance u + amount req\<rparr>)
       \<and> users (snd (reject_payout cfg now (ADMIN_ID cfg) (request_id # w # ws) s))
           = (users s)(str (user_id req) \<mapsto> u\<lparr>balance := balance u + amount req\<rparr>)"
  using assms by (simp add: admin_reject_def reject_payout_def get_user_def)

theorem reject_restores_balance_only_witness:
  "map_of (payout_requests (example_state Pending)) ''REQ_100_1234'' = Some (example_request Pending)
   \<and> status (example_request Pending) = Pending
   \<and> users (example_state Pending) (str (user_id (example_request Pending))) = Some example_user
   \<and> users (snd (admin_reject example_config 200 (ADMIN_ID example_config)
               [''REQ_100_1234'', ''bad'', ''address''] (example_state Pending))) ''7''
       = Some \<lparr>balance = 10, total_earned = 10, tasks_completed = 10, referrals = 0,
               daily_earned = 10, last_activity = 50, joined = 0\<rparr>"
proof -
  have h1: "map_of (payout_requests (example_state Pending)) ''REQ_100_1234''
              = Some (example_request Pending)"
    by (simp add: example_state_def)
  have h2: "status (example_request Pending) = Pending"
    by (simp add: example_request_def)
  have h3: "users (example_state Pending) (str (user_id (example_request Pending)))
              = Some example_user"
    by (simp add: example_state_def example_request_def)
  from reject_restores_balance_only[OF h1 h2 h3, of example_config 200 "[''bad'', ''address'']"]
  show ?thesis using h1 h2 h3 by (simp add: example_request_def example_user_def)
qed

subsection \<open>Rejection for a user without a record\<close>

text \<open>
  Claim C10. In the first program's \<open>reject_payout\<close>, rejecting a pending request whose
  user has no entry in \<open>users\<close> stores the request as rejected, with processed_at set to
  the time of the command and admin_note set to the reason, and changes nothing else in
  the state: no balance is credited. (The notice to the user then fails with KeyError,
  after the state has been saved.)
\<close>

theorem reject_payout_without_user:
  assumes "map_of (payout_requests s) request_id = Some req"
    and "status req = Pending"
    and "users s (str (user_id req)) = None"
  shows "reject_payout cfg now (ADMIN_ID cfg) (request_id # w # ws) s =
           (Raised KeyError,
            s\<lparr>payout_requests := AList.update request_id
                 (req\<lparr>status := Rejected, processed_at := Some now,
                      admin_note := Text (join_space (w # ws))\<rparr>) (payout_requests s)\<rparr>)"
  using assms by (simp add: reject_payout_def)

theorem reject_payout_without_user_witness:
  "map_of (payout_requests orphan_state) ''REQ_100_1234'' = Some (example_request Pending)
   \<and> status (example_request Pending) = Pending
   \<and> users orphan_state (str (user_id (example_request Pending))) = None
   \<and> reject_payout example_config 200 (ADMIN_ID example_config)
        [''REQ_100_1234'', ''bad'', ''address''] orphan_state =
       (Raised KeyError,
        \<lparr>users = Map.empty,
         payout_requests =
           [(''REQ_100_1234'',
             (example_request Pending)\<lparr>status := Rejected, processed_at := Some 200,
                admin_note := Text ''bad address''\<rparr>)],
         user_tasks = Map.empty, user_data = Map.empty\<rparr>)"
proof -
  have h1: "map_of (payout_requests orphan_state) ''REQ_100_1234'' = Some (example_request Pending)"
    by (simp add: orphan_state_def)
  have h2: "status (example_request Pending) = Pending"
    by (simp add: example_request_def)
  have h3: "users orphan_state (str (user_id (example_request Pending))) = None"
    by (simp add: orphan_state_def)
  from reject_payout_without_user[OF h1 h2 h3, of example_config 200 "''bad''" "[''address'']"]
  show ?thesis using h1 h2 h3 by (simp add: orphan_state_def)
qed

subsection \<open>Balances never go below zero\<close>

lemma get_user_ok:
  "balances_ok s \<Longrightarrow> balances_ok (snd (get_user now uid s)) \<and> 0 \<le> balance (fst (get_user now uid s))"
  by (auto simp: balances_ok_def get_user_def new_user_def split: option.splits)

lemma get_user_lookup:
  "users (snd (get_user now uid s)) (str uid) = Some (fst (get_user now uid s))"
  by (auto simp: get_user_def split: option.splits)

lemma can_earn_today_ok:
  "balances_ok s \<Longrightarrow> balances_ok (snd (can_earn_today cfg now uid s))"
  using get_user_ok[of s now uid]
  by (auto simp: can_earn_today_def Let_def split_def balances_ok_def)

lemma add_earnings_ok:
  "balances_ok s \<Longrightarrow> 0 \<le> amt \<Longrightarrow> balances_ok (add_earnings now uid amt s)"
  using get_user_ok[of s now uid]
  by (auto simp: add_earnings_def Let_def split_def balances_ok_def)

lemma start_ok:
  assumes "balances_ok s" "rewards_nonneg cfg"
  shows "balances_ok (snd (start cfg now uid args s))"
proof -
  let ?s1 = "snd (get_user now uid s)"
  have s1: "balances_ok ?s1" using assms(1) get_user_ok by blast
  have bump: "balances_ok (?s1\<lparr>users := (users ?s1)(k \<mapsto> r\<lparr>referrals := referrals r + 1\<rparr>)\<rparr>)"
    if "users ?s1 k = Some r" for k r
    using s1 that by (auto simp: balances_ok_def)
  show ?thesis
    using s1 bump assms(2)
    by (auto simp: start_def Let_def split_def rewards_nonneg_def
        intro!: add_earnings_ok split: list.splits option.splits sum.splits)
qed

lemma button_task_ok:
  assumes "balances_ok s" "0 \<le> reward t"
  shows "balances_ok (snd (button_task cfg now uid k t s))"
proof -
  let ?s1 = "snd (can_earn_today cfg now uid s)"
  have s1: "balances_ok ?s1" using assms(1) can_earn_today_ok by blast
  have a: "balances_ok (add_earnings now uid (reward t) ?s1)"
    using s1 assms(2) by (rule add_earnings_ok)
  have frame: "balances_ok (x\<lparr>user_tasks := m\<rparr>)" if "balances_ok x" for x m
    using that by (simp add: balances_ok_def)
  show ?thesis
    using s1 a frame
    by (auto simp: button_task_def Let_def split_def start_task_timer_def
        split: sum.splits bool.splits)
qed

lemma button_ok:
  assumes "balances_ok s" "rewards_nonneg cfg"
  shows "balances_ok (snd (button cfg now uid data s))"
proof -
  let ?s1 = "snd (get_user now uid s)"
  have s1: "balances_ok ?s1" and b: "0 \<le> balance (fst (get_user now uid s))"
    using assms(1) get_user_ok by blast+
  have choice: "balances_ok (?s1\<lparr>user_data := (user_data ?s1)(uid \<mapsto>
                   \<lparr>payout_method = m, payout_amount = balance (fst (get_user now uid s))\<rparr>)\<rparr>)" for m
    using s1 b by (auto simp: balances_ok_def)
  show ?thesis
  proof (cases data)
    case (CbTask k)
    then show ?thesis using s1 assms(2) button_task_ok[of ?s1 _ cfg now uid k]
      by (auto simp: button_def Let_def split_def rewards_nonneg_def split: option.splits)
  next
    case (CbPayoutMethod m)
    then show ?thesis using s1 choice[of m]
      by (auto simp: button_def Let_def split_def)
  qed (use s1 can_earn_today_ok[of ?s1 cfg now uid] in \<open>auto simp: button_def Let_def split_def\<close>)
qed

lemma address_ok:
  assumes "balances_ok s"
  shows "balances_ok (snd (handle_payout_address cfg now rnd uid uname address s))"
proof (cases "user_data s uid")
  case None
  then show ?thesis using assms by (simp add: handle_payout_address_def)
next
  case (Some c)
  show ?thesis
  proof (cases "length address < 5")
    case True
    then show ?thesis using assms Some by (simp add: handle_payout_address_def)
  next
    case False
    let ?s1 = "snd (create_payout_request now rnd uid uname (payout_amount c) (payout_method c) address s)"
    have c0: "0 \<le> payout_amount c" using assms Some by (auto simp: balances_ok_def)
    have s1: "balances_ok ?s1"
      using assms c0 by (auto simp: balances_ok_def create_payout_request_def Let_def update_conv')
    have s2: "balances_ok (snd (get_user now uid ?s1))" using s1 get_user_ok by blast
    then show ?thesis using Some False
      by (auto simp: handle_payout_address_def Let_def split_def balances_ok_def)
  qed
qed

lemma approve_ok:
  "balances_ok s \<Longrightarrow> balances_ok (snd (admin_approve cfg now caller args s))"
  by (auto simp: admin_approve_def balances_ok_def update_conv' split: list.splits option.splits)

lemma credit_back_ok:
  assumes "balances_ok s1" "0 \<le> amt"
  shows "balances_ok ((snd (get_user now uid s1))
           \<lparr>users := (users (snd (get_user now uid s1)))(str uid \<mapsto>
              (fst (get_user now uid s1))\<lparr>balance := balance (fst (get_user now uid s1)) + amt\<rparr>)\<rparr>)"
  using get_user_ok[OF assms(1), of now uid] assms(2)
  by (auto simp: balances_ok_def)

lemma reject_ok:
  assumes "balances_ok s"
  shows "balances_ok (snd (admin_reject cfg now caller args s))"
proof (cases "caller \<noteq> ADMIN_ID cfg \<or> args = []")
  case True
  then show ?thesis using assms by (auto simp: admin_reject_def)
next
  case False
  then obtain rid ws where args: "args = rid # ws" and adm: "caller = ADMIN_ID cfg"
    by (cases args) auto
  show ?thesis
  proof (cases "map_of (payout_requests s) rid")
    case None
    then show ?thesis using assms args adm by (simp add: admin_reject_def)
  next
    case (Some req)
    show ?thesis
    proof (cases "status req = Pending")
      case False
      then show ?thesis using assms args adm Some by (simp add: admin_reject_def)
    next
      case True
      let ?s1 = "s\<lparr>payout_requests := AList.update rid
                   (req\<lparr>status := Rejected, processed_at := Some now,
                        admin_note := Text (reject_reason args)\<rparr>) (payout_requests s)\<rparr>"
      have amt: "0 \<le> amount req" using assms Some by (auto simp: balances_ok_def)
      have s1: "balances_ok ?s1" using assms Some by (auto simp: balances_ok_def update_conv')
      from credit_back_ok[OF s1 amt, of now "user_id req"]
      show ?thesis using args adm Some True
        by (simp add: admin_reject_def Let_def split_def)
    qed
  qed
qed

lemma step_ok:
  assumes "balances_ok s" "rewards_nonneg cfg"
  shows "balances_ok (step cfg now rnd ev s)"
  using assms start_ok button_ok address_ok approve_ok reject_ok
  by (cases ev) (auto simp: step_def)

lemma run_ok:
  assumes "rewards_nonneg cfg"
  shows "balances_ok s \<Longrightarrow> balances_ok (run cfg evs s)"
proof (induction evs arbitrary: s)
  case Nil
  then show ?case by simp
next
  case (Cons e evs)
  obtain now rnd ev where e: "e = (now, rnd, ev)" by (cases e)
  show ?case using Cons assms e by (simp add: step_ok)
qed

lemma fresh_ok: "balances_ok fresh"
  by (simp add: balances_ok_def fresh_def)


lemma reset_daily_tasks_ok: "bot_balances_ok s \<Longrightarrow> bot_balances_ok (reset_daily_tasks now s)"
  by (auto simp: bot_balances_ok_def reset_daily_tasks_def)

lemma referral_bonus_ok:
  "bot_balances_ok s \<Longrightarrow> 0 \<le> B_BONUS_REFERRAL cfg \<Longrightarrow> bot_balances_ok (referral_bonus cfg ref s)"
  by (auto simp: bot_balances_ok_def referral_bonus_def split: option.splits)

lemma bot_start_ok:
  assumes "bot_balances_ok s" "bot_rewards_nonneg cfg"
  shows "bot_balances_ok (snd (bot_start cfg now uid uname name ref s))"
proof -
  have "bot_balances_ok (s\<lparr>b_users := (b_users s)(str uid \<mapsto> new_bot_user now uname name ref)\<rparr>)"
    using assms(1) by (auto simp: bot_balances_ok_def new_bot_user_def)
  then show ?thesis
    using assms by (auto simp: bot_start_def Let_def bot_rewards_nonneg_def
        intro!: reset_daily_tasks_ok referral_bonus_ok)
qed

lemma bot_timer_ok:
  "bot_balances_ok s \<Longrightarrow> bot_balances_ok (bot_start_task_timer now uid k s)"
  by (simp add: bot_balances_ok_def bot_start_task_timer_def Let_def)

lemma verify_ok:
  assumes "bot_balances_ok s" "bot_rewards_nonneg cfg"
  shows "bot_balances_ok (snd (verify cfg now uid k s))"
  using assms
  by (auto simp: verify_def Let_def bot_balances_ok_def bot_rewards_nonneg_def
      split: option.splits sum.splits bool.splits)

lemma ensure_user_ok: "bot_balances_ok s \<Longrightarrow> bot_balances_ok (ensure_user now uid uname name s)"
  by (auto simp: bot_balances_ok_def ensure_user_def new_bot_user_def)

lemma handle_callback_ok:
  assumes "bot_balances_ok s" "bot_rewards_nonneg cfg"
  shows "bot_balances_ok (snd (handle_callback cfg now uid uname name data s))"
proof -
  let ?s = "reset_daily_tasks now (ensure_user now uid uname name s)"
  have s: "bot_balances_ok ?s"
    using assms(1) by (intro reset_daily_tasks_ok ensure_user_ok)
  show ?thesis
    using s verify_ok[OF s assms(2)] bot_timer_ok[OF s]
    by (cases data) (auto simp: handle_callback_def Let_def split: option.splits)
qed

lemma handle_message_ok:
  "bot_balances_ok s \<Longrightarrow> bot_balances_ok (snd (handle_message cfg now uid msg s))"
  by (auto simp: handle_message_def bot_balances_ok_def
      split: option.splits bot_message.splits)

lemma bot_step_ok:
  assumes "bot_balances_ok s" "bot_rewards_nonneg cfg"
  shows "bot_balances_ok (bot_step cfg now ev s)"
  using assms bot_start_ok handle_callback_ok handle_message_ok
  by (cases ev) (auto simp: bot_step_def)

lemma bot_run_ok:
  assumes "bot_rewards_nonneg cfg"
  shows "bot_balances_ok s \<Longrightarrow> bot_balances_ok (bot_run cfg evs s)"
proof (induction evs arbitrary: s)
  case Nil
  then show ?case by simp
next
  case (Cons e evs)
  obtain now ev where e: "e = (now, ev)" by (cases e)
  show ?case using Cons assms e by (simp add: bot_step_ok)
qed

lemma bot_fresh_ok: "bot_balances_ok bot_fresh"
  by (simp add: bot_balances_ok_def bot_fresh_def)

text \<open>
  Claim C1. When the referral bonus and the task rewards of the configuration are not
  negative, no user ever has a negative balance: in the payout-request bot after any
  sequence of /start commands (user creation and referral credit), button presses (task
  rewards, choice of a payout method), address messages (creation of a payout request),
  approvals and rejections, and in bot.py after any sequence of /start commands, task
  and verify callbacks and withdrawal messages, whatever amounts the messages ask for.
  Both runs start from the empty state of a bot without data.json. Every prefix of a run
  is a run, so the balance is at least 0 after each operation.
\<close>

theorem balance_never_negative:
  assumes "rewards_nonneg cfg" and "bot_rewards_nonneg bcfg"
  shows "(\<forall>k u. users (run cfg evs fresh) k = Some u \<longrightarrow> 0 \<le> balance u)
       \<and> (\<forall>k u. b_users (bot_run bcfg bevs bot_fresh) k = Some u \<longrightarrow> 0 \<le> b_balance u)"
  using run_ok[OF assms(1) fresh_ok, of evs] bot_run_ok[OF assms(2) bot_fresh_ok, of bevs]
  by (simp add: balances_ok_def bot_balances_ok_def)

theorem balance_never_negative_witness:
  "rewards_nonneg example_config \<and> bot_rewards_nonneg example_bot_config
   \<and> (\<exists>u. users (run example_config example_events fresh) ''7'' = Some u \<and> 0 \<le> balance u)
   \<and> (\<exists>u. b_users (bot_run example_bot_config example_bot_events bot_fresh) ''7'' = Some u
          \<and> 0 \<le> b_balance u)"
proof -
  have h1: "rewards_nonneg example_config"
    by (auto simp: rewards_nonneg_def example_config_def split: if_splits)
  have h2: "bot_rewards_nonneg example_bot_config"
    by (auto simp: bot_rewards_nonneg_def example_bot_config_def split: if_splits)
  have "map_option balance (users (run example_config example_events fresh) ''7'') = Some 5"
    by code_simp
  then obtain u where u: "users (run example_config example_events fresh) ''7'' = Some u"
    by (cases "users (run example_config example_events fresh) ''7''") auto
  have "map_option b_balance
          (b_users (bot_run example_bot_config example_bot_events bot_fresh) ''7'') = Some 4"
    by code_simp
  then obtain bu where
    bu: "b_users (bot_run example_bot_config example_bot_events bot_fresh) ''7'' = Some bu"
    by (cases "b_users (bot_run example_bot_config example_bot_events bot_fresh) ''7''") auto
  from balance_never_negative[OF h1 h2, of example_events example_bot_events] u bu h1 h2
  show ?thesis by blast
qed

subsection \<open>Claiming a task reward\<close>

lemma py_int_nonneg: "0 \<le> x \<Longrightarrow> py_int x = \<lfloor>x\<rfloor>"
  by (simp add: py_int_def)

lemma claim_not_started:
  assumes "find_task tasks k = Some t" and "tm_started a u k = None"
  shows "handle_task_claim tasks rw now u k a = (TaskNotStartedYet, a)"
  using assms
  by (simp add: handle_task_claim_def Let_def tm_is_task_completed_def tm_get_remaining_time_def)

lemma claim_waiting:
  assumes "find_task tasks k = Some t" and "tm_started a u k = Some t0"
    and "now - t0 + 1 \<le> of_int (wait_time_of t)"
  shows "handle_task_claim tasks rw now u k a
           = (PleaseWaitMore \<lfloor>of_int (wait_time_of t) - (now - t0)\<rfloor>, a)"
proof -
  have one: "1 \<le> of_int (wait_time_of t) - (now - t0)" using assms(3) by simp
  then have pos: "0 \<le> of_int (wait_time_of t) - (now - t0)" by simp
  have "(1::int) \<le> \<lfloor>of_int (wait_time_of t) - (now - t0)\<rfloor>"
    using one by (simp add: le_floor_iff)
  moreover have "\<not> of_int (wait_time_of t) \<le> now - t0" using assms(3) by simp
  ultimately show ?thesis
    using assms(1,2) pos
    by (simp add: handle_task_claim_def Let_def tm_is_task_completed_def
        tm_get_remaining_time_def py_int_nonneg)
qed

lemma claim_elapsed:
  assumes "find_task tasks k = Some t" and "tm_started a u k = Some t0"
    and "of_int (wait_time_of t) \<le> now - t0" and "api_users a u = Some usr"
  shows "fst (handle_task_claim tasks rw now u k a) = Congratulations (reward_of rw k)"
    and "api_users (snd (handle_task_claim tasks rw now u k a)) u =
           Some (usr\<lparr>a_balance := a_balance usr + reward_of rw k,
                     totalEarned := totalEarned usr + reward_of rw k,
                     dailyEarned := dailyEarned usr + reward_of rw k,
                     tasksCompleted := tasksCompleted usr + 1\<rparr>)"
    and "tm_started (snd (handle_task_claim tasks rw now u k a)) u k = None"
  using assms
  by (auto simp: handle_task_claim_def Let_def tm_is_task_completed_def add_user_earnings_def
      api_get_user_def api_patch_user_def earnings_updates_def tm_complete_task_def
      tm_started_def split: option.splits)

lemma verify_not_started:
  assumes "B_TASKS cfg k = Some t" and "started_at b uid k = None"
  shows "verify cfg now uid k b = (BPleaseWait (wait t), b)"
  using assms
  by (simp add: verify_def bot_is_task_completed_def bot_get_remaining_time_def)

lemma verify_waiting:
  assumes "B_TASKS cfg k = Some t" and "started_at b uid k = Some t0"
    and "now - t0 < of_int (wait t)"
  shows "verify cfg now uid k b = (BPleaseWait \<lfloor>of_int (wait t) - (now - t0)\<rfloor>, b)"
proof -
  have "\<not> of_int (wait t) \<le> now - t0" using assms(3) by simp
  moreover have "max 0 (of_int (wait t) - (now - t0)) = of_int (wait t) - (now - t0)"
    using assms(3) by simp
  ultimately show ?thesis
    using assms(1,2)
    by (simp add: verify_def bot_is_task_completed_def bot_get_remaining_time_def py_int_def)
qed

lemma verify_elapsed:
  assumes "B_TASKS cfg k = Some t" and "started_at b uid k = Some t0"
    and "of_int (wait t) \<le> now - t0" and "b_users b (str uid) = Some bu"
  shows "fst (verify cfg now uid k b) = BTaskCompleted (reward t)"
    and "b_users (snd (verify cfg now uid k b)) (str uid) =
           Some (bu\<lparr>completed_tasks := completed_tasks bu @ [k],
                    b_balance := b_balance bu + reward t\<rparr>)"
    and "started_at (snd (verify cfg now uid k b)) uid k = None"
  using assms
  by (auto simp: verify_def bot_is_task_completed_def Let_def started_at_def
      split: option.splits)

lemma button_task_not_started:
  assumes "fst (can_earn_today cfg now uid s)" and "user_tasks s (task_key_of uid k) = None"
  shows "button_task cfg now uid k t s
           = (TaskStarted, start_task_timer now uid k (snd (can_earn_today cfg now uid s)))"
  using assms by (simp add: button_task_def Let_def split_def domIff)

lemma button_task_waiting:
  assumes "fst (can_earn_today cfg now uid s)" and "TASKS cfg k = Some t"
    and "user_tasks s (task_key_of uid k) = Some t0" and "t0 \<noteq> 0"
    and "now - t0 < of_int (wait t)"
  shows "button_task cfg now uid k t s
           = (TaskInProgress \<lfloor>of_int (wait t) - (now - t0)\<rfloor>, snd (can_earn_today cfg now uid s))"
proof -
  have "\<not> of_int (wait t) \<le> now - t0" using assms(5) by simp
  moreover have "max 0 (of_int (wait t) - (now - t0)) = of_int (wait t) - (now - t0)"
    using assms(5) by simp
  ultimately show ?thesis
    using assms(1-4)
    by (simp add: button_task_def Let_def split_def domIff is_task_completed_def
        get_remaining_time_def truthy_start_def py_int_def)
qed

lemma button_task_elapsed:
  assumes "fst (can_earn_today cfg now uid s)" and "TASKS cfg k = Some t"
    and "user_tasks s (task_key_of uid k) = Some t0" and "t0 \<noteq> 0"
    and "of_int (wait t) \<le> now - t0"
  shows "button_task cfg now uid k t s
           = (TaskCompleted (reward t),
              (add_earnings now uid (reward t) (snd (can_earn_today cfg now uid s)))
                \<lparr>user_tasks := (user_tasks s)(task_key_of uid k := None)\<rparr>)"
  using assms
  by (simp add: button_task_def Let_def split_def domIff is_task_completed_def truthy_start_def)

lemma can_earn_today_balance:
  assumes "users s (str uid) = Some usr"
  shows "map_option balance (users (snd (can_earn_today cfg now uid s)) (str uid)) = Some (balance usr)"
    and "map_option tasks_completed (users (snd (can_earn_today cfg now uid s)) (str uid))
           = Some (tasks_completed usr)"
  using assms by (simp_all add: can_earn_today_def Let_def split_def get_user_def)

lemma add_earnings_balance:
  assumes "map_option balance (users s (str uid)) = Some b"
  shows "map_option balance (users (add_earnings now uid amt s) (str uid)) = Some (b + amt)"
  using assms by (auto simp: add_earnings_def Let_def split_def get_user_def split: option.splits)

text \<open>
  Claim C2, as the three programs have it. In the API-backed bot (\<open>handle_task_claim\<close>,
  for a task the backend lists): a claim without a running timer is answered "not started
  yet"; a claim with at least one whole second of the wait left is answered "please wait"
  with the remaining whole seconds; a claim after the wait credits the reward to the user
  (balance, totalEarned, dailyEarned grow by it, tasksCompleted by one), and a second
  claim right after it is answered "not started yet" and changes nothing. In bot.py
  (\<open>verify\<close>, for a configured task): a verify without a running timer is answered
  "please wait" with the task's full wait; during the wait the answer carries the remaining
  whole seconds; after the wait the reward is credited once, the timer is removed, and a
  second verify is again answered with the full wait. In the payout-request bot the one
  task button starts and claims: without a running timer it starts one; during the wait
  it answers with the remaining whole seconds; after the wait it credits the reward and
  removes the timer (a recorded start time of 0 counts as no start there, and the button
  first checks the daily limit).
\<close>

theorem claim_ordering:
  "(find_task tasks k = Some t \<and> tm_started a u k = None \<longrightarrow>
      handle_task_claim tasks rw now u k a = (TaskNotStartedYet, a))
   \<and> (find_task tasks k = Some t \<and> tm_started a u k = Some began
        \<and> now - began + 1 \<le> of_int (wait_time_of t) \<longrightarrow>
      handle_task_claim tasks rw now u k a
        = (PleaseWaitMore \<lfloor>of_int (wait_time_of t) - (now - began)\<rfloor>, a))
   \<and> (find_task tasks k = Some t \<and> tm_started a u k = Some began
        \<and> of_int (wait_time_of t) \<le> now - began \<and> api_users a u = Some usr \<longrightarrow>
      fst (handle_task_claim tasks rw now u k a) = Congratulations (reward_of rw k)
      \<and> api_users (snd (handle_task_claim tasks rw now u k a)) u =
           Some (usr\<lparr>a_balance := a_balance usr + reward_of rw k,
                     totalEarned := totalEarned usr + reward_of rw k,
                     dailyEarned := dailyEarned usr + reward_of rw k,
                     tasksCompleted := tasksCompleted usr + 1\<rparr>)
      \<and> handle_task_claim tasks rw later u k (snd (handle_task_claim tasks rw now u k a))
           = (TaskNotStartedYet, snd (handle_task_claim tasks rw now u k a)))
   \<and> (B_TASKS bcfg k = Some bt \<and> started_at b uid k = None \<longrightarrow>
      verify bcfg now uid k b = (BPleaseWait (wait bt), b))
   \<and> (B_TASKS bcfg k = Some bt \<and> started_at b uid k = Some began \<and> now - began < of_int (wait bt) \<longrightarrow>
      verify bcfg now uid k b = (BPleaseWait \<lfloor>of_int (wait bt) - (now - began)\<rfloor>, b))
   \<and> (B_TASKS bcfg k = Some bt \<and> started_at b uid k = Some began \<and> of_int (wait bt) \<le> now - began
        \<and> b_users b (str uid) = Some bu \<longrightarrow>
      fst (verify bcfg now uid k b) = BTaskCompleted (reward bt)
      \<and> b_users (snd (verify bcfg now uid k b)) (str uid) =
           Some (bu\<lparr>completed_tasks := completed_tasks bu @ [k],
                    b_balance := b_balance bu + reward bt\<rparr>)
      \<and> verify bcfg later uid k (snd (verify bcfg now uid k b))
           = (BPleaseWait (wait bt), snd (verify bcfg now uid k b)))
   \<and> (fst (can_earn_today cfg now uid s) \<and> user_tasks s (task_key_of uid k) = None \<longrightarrow>
      button_task cfg now uid k vt s
        = (TaskStarted, start_task_timer now uid k (snd (can_earn_today cfg now uid s))))
   \<and> (fst (can_earn_today cfg now uid s) \<and> TASKS cfg k = Some vt
        \<and> user_tasks s (task_key_of uid k) = Some began \<and> began \<noteq> 0 \<and> now - began < of_int (wait vt) \<longrightarrow>
      button_task cfg now uid k vt s
        = (TaskInProgress \<lfloor>of_int (wait vt) - (now - began)\<rfloor>, snd (can_earn_today cfg now uid s)))
   \<and> (fst (can_earn_today cfg now uid s) \<and> TASKS cfg k = Some vt
        \<and> user_tasks s (task_key_of uid k) = Some began \<and> began \<noteq> 0 \<and> of_int (wait vt) \<le> now - began
        \<and> users s (str uid) = Some vu \<longrightarrow>
      fst (button_task cfg now uid k vt s) = TaskCompleted (reward vt)
      \<and> map_option balance (users (snd (button_task cfg now uid k vt s)) (str uid))
           = Some (balance vu + reward vt)
      \<and> user_tasks (snd (button_task cfg now uid k vt s)) (task_key_of uid k) = None)"
proof (intro conjI impI; (elim conjE)?)
  assume "find_task tasks k = Some t" "tm_started a u k = None"
  then show "handle_task_claim tasks rw now u k a = (TaskNotStartedYet, a)"
    by (rule claim_not_started)
next
  assume "find_task tasks k = Some t" "tm_started a u k = Some began"
    "now - began + 1 \<le> of_int (wait_time_of t)"
  then show "handle_task_claim tasks rw now u k a
        = (PleaseWaitMore \<lfloor>of_int (wait_time_of t) - (now - began)\<rfloor>, a)"
    by (rule claim_waiting)
next
  assume h: "find_task tasks k = Some t" "tm_started a u k = Some began"
    "of_int (wait_time_of t) \<le> now - began" "api_users a u = Some usr"
  show "fst (handle_task_claim tasks rw now u k a) = Congratulations (reward_of rw k)"
    by (rule claim_elapsed(1)[OF h])
  show "api_users (snd (handle_task_claim tasks rw now u k a)) u =
           Some (usr\<lparr>a_balance := a_balance usr + reward_of rw k,
                     totalEarned := totalEarned usr + reward_of rw k,
                     dailyEarned := dailyEarned usr + reward_of rw k,
                     tasksCompleted := tasksCompleted usr + 1\<rparr>)"
    by (rule claim_elapsed(2)[OF h])
  show "handle_task_claim tasks rw later u k (snd (handle_task_claim tasks rw now u k a))
           = (TaskNotStartedYet, snd (handle_task_claim tasks rw now u k a))"
    by (rule claim_not_started[OF h(1) claim_elapsed(3)[OF h]])
next
  assume "B_TASKS bcfg k = Some bt" "started_at b uid k = None"
  then show "verify bcfg now uid k b = (BPleaseWait (wait bt), b)"
    by (rule verify_not_started)
next
  assume "B_TASKS bcfg k = Some bt" "started_at b uid k = Some began" "now - began < of_int (wait bt)"
  then show "verify bcfg now uid k b = (BPleaseWait \<lfloor>of_int (wait bt) - (now - began)\<rfloor>, b)"
    by (rule verify_waiting)
next
  assume h: "B_TASKS bcfg k = Some bt" "started_at b uid k = Some began"
    "of_int (wait bt) \<le> now - began" "b_users b (str uid) = Some bu"
  show "fst (verify bcfg now uid k b) = BTaskCompleted (reward bt)"
    by (rule verify_elapsed(1)[OF h])
  show "b_users (snd (verify bcfg now uid k b)) (str uid) =
           Some (bu\<lparr>completed_tasks := completed_tasks bu @ [k],
                    b_balance := b_balance bu + reward bt\<rparr>)"
    by (rule verify_elapsed(2)[OF h])
  show "verify bcfg later uid k (snd (verify bcfg now uid k b))
           = (BPleaseWait (wait bt), snd (verify bcfg now uid k b))"
    by (rule verify_not_started[OF h(1) verify_elapsed(3)[OF h]])
next
  assume "fst (can_earn_today cfg now uid s)" "user_tasks s (task_key_of uid k) = None"
  then show "button_task cfg now uid k vt s
        = (TaskStarted, start_task_timer now uid k (snd (can_earn_today cfg now uid s)))"
    by (rule button_task_not_started)
next
  assume "fst (can_earn_today cfg now uid s)" "TASKS cfg k = Some vt"
    "user_tasks s (task_key_of uid k) = Some began" "began \<noteq> 0" "now - began < of_int (wait vt)"
  then show "button_task cfg now uid k vt s
        = (TaskInProgress \<lfloor>of_int (wait vt) - (now - began)\<rfloor>, snd (can_earn_today cfg now uid s))"
    by (rule button_task_waiting)
next
  assume h: "fst (can_earn_today cfg now uid s)" "TASKS cfg k = Some vt"
    "user_tasks s (task_key_of uid k) = Some began" "began \<noteq> 0" "of_int (wait vt) \<le> now - began"
    and vu: "users s (str uid) = Some vu"
  note eq = button_task_elapsed[OF h]
  show "fst (button_task cfg now uid k vt s) = TaskCompleted (reward vt)"
    by (simp add: eq)
  show "map_option balance (users (snd (button_task cfg now uid k vt s)) (str uid))
           = Some (balance vu + reward vt)"
    using add_earnings_balance[OF can_earn_today_balance(1)[OF vu]] by (simp add: eq)
  show "user_tasks (snd (button_task cfg now uid k vt s)) (task_key_of uid k) = None"
    by (simp add: eq)
qed

lemma date_of_first_day: "0 \<le> t \<Longrightarrow> t < 86400 \<Longrightarrow> date_of t = 0"
  by (simp add: date_of_def floor_eq_iff)

lemma task_key_7_like [simp]: "task_key_of 7 ''like'' = ''7_like''"
  by (simp add: task_key_of_def)

lemma example_can_earn:
  "fst (can_earn_today example_config 25 7 (example_state Approved))"
  "fst (can_earn_today example_config 25 7 example_timed_state)"
  "fst (can_earn_today example_config 50 7 example_timed_state)"
  by (simp_all add: can_earn_today_def Let_def split_def get_user_def example_state_def
      example_timed_state_def start_task_timer_def example_user_def example_config_def
      date_of_first_day)

theorem claim_ordering_witness:
  "find_task example_tasks ''like'' = Some \<lparr>a_key = ''like'', waitTime = Some 30\<rparr>
   \<and> tm_started example_api_state ''7'' ''like'' = None
   \<and> handle_task_claim example_tasks [''like'' \<mapsto> 5] 25 ''7'' ''like'' example_api_state
        = (TaskNotStartedYet, example_api_state)
   \<and> tm_started example_api_timed ''7'' ''like'' = Some 10
   \<and> handle_task_claim example_tasks [''like'' \<mapsto> 5] 25 ''7'' ''like'' example_api_timed
        = (PleaseWaitMore 15, example_api_timed)
   \<and> api_users example_api_timed ''7'' = Some example_api_user
   \<and> fst (handle_task_claim example_tasks [''like'' \<mapsto> 5] 50 ''7'' ''like'' example_api_timed)
        = Congratulations 5
   \<and> fst (handle_task_claim example_tasks [''like'' \<mapsto> 5] 50 ''7'' ''like''
        (snd (handle_task_claim example_tasks [''like'' \<mapsto> 5] 50 ''7'' ''like''
           example_api_timed))) = TaskNotStartedYet
   \<and> B_TASKS example_bot_config ''like'' = Some \<lparr>reward = 5, wait = 30\<rparr>
   \<and> started_at example_bot_state 7 ''like'' = None
   \<and> verify example_bot_config 25 7 ''like'' example_bot_state
        = (BPleaseWait 30, example_bot_state)
   \<and> started_at example_bot_timed 7 ''like'' = Some 10
   \<and> verify example_bot_config 25 7 ''like'' example_bot_timed
        = (BPleaseWait 15, example_bot_timed)
   \<and> b_users example_bot_timed (str 7) = Some (new_bot_user 0 ''ann'' ''Ann'' None)
   \<and> fst (verify example_bot_config 50 7 ''like'' example_bot_timed) = BTaskCompleted 5
   \<and> fst (verify example_bot_config 50 7 ''like''
        (snd (verify example_bot_config 50 7 ''like'' example_bot_timed))) = BPleaseWait 30
   \<and> fst (can_earn_today example_config 25 7 (example_state Approved))
   \<and> user_tasks (example_state Approved) (task_key_of 7 ''like'') = None
   \<and> fst (button_task example_config 25 7 ''like'' \<lparr>reward = 5, wait = 30\<rparr>
        (example_state Approved)) = TaskStarted
   \<and> fst (can_earn_today example_config 25 7 example_timed_state)
   \<and> TASKS example_config ''like'' = Some \<lparr>reward = 5, wait = 30\<rparr>
   \<and> user_tasks example_timed_state (task_key_of 7 ''like'') = Some 10
   \<and> fst (button_task example_config 25 7 ''like'' \<lparr>reward = 5, wait = 30\<rparr>
        example_timed_state) = TaskInProgress 15
   \<and> fst (can_earn_today example_config 50 7 example_timed_state)
   \<and> users example_timed_state (str 7) = Some example_user
   \<and> fst (button_task example_config 50 7 ''like'' \<lparr>reward = 5, wait = 30\<rparr>
        example_timed_state) = TaskCompleted 5
   \<and> map_option balance (users (snd (button_task example_config 50 7 ''like''
        \<lparr>reward = 5, wait = 30\<rparr> example_timed_state)) (str 7)) = Some 5"
proof -
  let ?t = "\<lparr>a_key = ''like'', waitTime = Some 30\<rparr>"
  let ?vt = "\<lparr>reward = 5, wait = 30\<rparr>"
  let ?rw = "[''like'' \<mapsto> (5::rat)]"
  have f: "find_task example_tasks ''like'' = Some ?t"
    by (simp add: find_task_def example_tasks_def)
  have w: "wait_time_of ?t = 30" and r: "reward_of ?rw ''like'' = 5"
    by (simp_all add: wait_time_of_def reward_of_def)
  have a0: "tm_started example_api_state ''7'' ''like'' = None"
    by (simp add: tm_started_def example_api_state_def)
  have a1: "tm_started example_api_timed ''7'' ''like'' = Some 10"
    by (simp add: tm_started_def example_api_timed_def tm_start_task_def example_api_state_def)
  have au: "api_users example_api_timed ''7'' = Some example_api_user"
    by (simp add: example_api_timed_def tm_start_task_def example_api_state_def)
  have bt: "B_TASKS example_bot_config ''like'' = Some ?vt"
    by (simp add: example_bot_config_def)
  have b0: "started_at example_bot_state 7 ''like'' = None"
    by (simp add: started_at_def example_bot_state_def)
  have b1: "started_at example_bot_timed 7 ''like'' = Some 10"
    by (simp add: started_at_def example_bot_timed_def bot_start_task_timer_def
        example_bot_state_def)
  have bu: "b_users example_bot_timed (str 7) = Some (new_bot_user 0 ''ann'' ''Ann'' None)"
    by (simp add: example_bot_timed_def bot_start_task_timer_def example_bot_state_def)
  have vt: "TASKS example_config ''like'' = Some ?vt"
    by (simp add: example_config_def)
  have v0: "user_tasks (example_state Approved) (task_key_of 7 ''like'') = None"
    by (simp add: example_state_def)
  have v1: "user_tasks example_timed_state (task_key_of 7 ''like'') = Some 10"
    by (simp add: example_timed_state_def start_task_timer_def)
  have vu: "users example_timed_state (str 7) = Some example_user"
    by (simp add: example_timed_state_def start_task_timer_def example_state_def)
  note e = example_can_earn
  note T1 = claim_ordering[where tasks = example_tasks and k = "''like''" and t = ?t
      and a = example_api_state and u = "''7''" and rw = ?rw and now = 25 and bcfg = example_bot_config
      and bt = ?vt and b = example_bot_state and uid = 7 and cfg = example_config
      and s = "example_state Approved" and vt = ?vt]
  note T2 = claim_ordering[where tasks = example_tasks and k = "''like''" and t = ?t
      and a = example_api_timed and u = "''7''" and rw = ?rw and now = 25 and began = 10
      and bcfg = example_bot_config and bt = ?vt and b = example_bot_timed and uid = 7
      and cfg = example_config and s = example_timed_state and vt = ?vt]
  note T3 = claim_ordering[where tasks = example_tasks and k = "''like''" and t = ?t
      and a = example_api_timed and u = "''7''" and rw = ?rw and now = 50 and began = 10
      and usr = example_api_user and later = 50
      and bcfg = example_bot_config and bt = ?vt and b = example_bot_timed and uid = 7
      and bu = "new_bot_user 0 ''ann'' ''Ann'' None"
      and cfg = example_config and s = example_timed_state and vt = ?vt and vu = example_user]
  have p1: "handle_task_claim example_tasks ?rw 25 ''7'' ''like'' example_api_state
              = (TaskNotStartedYet, example_api_state)"
    and p2: "verify example_bot_config 25 7 ''like'' example_bot_state
              = (BPleaseWait 30, example_bot_state)"
    and p3: "fst (button_task example_config 25 7 ''like'' ?vt (example_state Approved))
              = TaskStarted"
    using T1 f a0 bt b0 e(1) v0 by simp_all
  have q1: "handle_task_claim example_tasks ?rw 25 ''7'' ''like'' example_api_timed
              = (PleaseWaitMore 15, example_api_timed)"
    and q2: "verify example_bot_config 25 7 ''like'' example_bot_timed
              = (BPleaseWait 15, example_bot_timed)"
    and q3: "fst (button_task example_config 25 7 ''like'' ?vt example_timed_state)
              = TaskInProgress 15"
    using T2 f a1 w bt b1 e(2) vt v1 by simp_all
  have r1: "fst (handle_task_claim example_tasks ?rw 50 ''7'' ''like'' example_api_timed)
              = Congratulations 5"
    and r2: "fst (handle_task_claim example_tasks ?rw 50 ''7'' ''like''
               (snd (handle_task_claim example_tasks ?rw 50 ''7'' ''like'' example_api_timed)))
              = TaskNotStartedYet"
    and r3: "fst (verify example_bot_config 50 7 ''like'' example_bot_timed) = BTaskCompleted 5"
    and r4: "fst (verify example_bot_config 50 7 ''like''
               (snd (verify example_bot_config 50 7 ''like'' example_bot_timed))) = BPleaseWait 30"
    and r5: "fst (button_task example_config 50 7 ''like'' ?vt example_timed_state)
              = TaskCompleted 5"
    and r6: "map_option balance (users (snd (button_task example_config 50 7 ''like'' ?vt
               example_timed_state)) (str 7)) = Some 5"
    using T3 f a1 au w r bt b1 bu e(3) vt v1 vu by (simp_all add: example_user_def)
  show ?thesis
    using f a0 a1 au bt b0 b1 bu vt v0 v1 vu e p1 p2 p3 q1 q2 q3 r1 r2 r3 r4 r5 r6
    by (intro conjI)
qed

theorem claim_ordering_counterexample:
  "started_at example_bot_state 7 ''like'' = None
   \<and> verify example_bot_config 25 7 ''like'' example_bot_state = (BPleaseWait 30, example_bot_state)
   \<and> user_tasks (example_state Approved) (task_key_of 7 ''like'') = None
   \<and> fst (button_task example_config 25 7 ''like'' \<lparr>reward = 5, wait = 30\<rparr>
        (example_state Approved)) = TaskStarted"
  using example_can_earn(1)
  by (simp add: started_at_def example_bot_state_def verify_def bot_is_task_completed_def
      bot_get_remaining_time_def example_bot_config_def button_task_def Let_def split_def
      example_state_def domIff)

subsection \<open>The remaining wait\<close>

lemma py_int_max: "py_int (max 0 x) = \<lfloor>max 0 x\<rfloor>"
  by (simp add: py_int_def)

lemma max_py_int: "max 0 (py_int x) = \<lfloor>max 0 x\<rfloor>"
proof (cases "0 \<le> x")
  case True
  then show ?thesis by (simp add: py_int_def max_def)
next
  case False
  then have "\<lceil>x\<rceil> \<le> 0" by simp
  then have "max 0 \<lceil>x\<rceil> = 0" by simp
  moreover have "max 0 x = 0" using False by simp
  ultimately show ?thesis using False by (simp add: py_int_def)
qed

text \<open>
  Claim C9, as the three programs have it. Without a running timer for the user and the
  task, \<open>get_remaining_time\<close> returns 0 in the payout-request bot and in the API-backed
  bot, and the task's full wait in bot.py. With a running timer all three return
  \<open>max(0, wait - elapsed)\<close> cut to whole seconds (in the payout-request bot a recorded
  start time of 0 counts as no timer; there and in bot.py the task must be configured).
\<close>

theorem remaining_time:
  "(user_tasks s (task_key_of uid k) = None \<longrightarrow> get_remaining_time cfg now uid k s = Inr 0)
   \<and> (user_tasks s (task_key_of uid k) = Some began \<and> began \<noteq> 0 \<and> TASKS cfg k = Some t \<longrightarrow>
        get_remaining_time cfg now uid k s = Inr \<lfloor>max 0 (of_int (wait t) - (now - began))\<rfloor>)
   \<and> (tm_started a u k = None \<longrightarrow> tm_get_remaining_time now u k w a = 0)
   \<and> (tm_started a u k = Some began \<longrightarrow>
        tm_get_remaining_time now u k w a = \<lfloor>max 0 (of_int w - (now - began))\<rfloor>)
   \<and> (started_at b uid k = None \<and> B_TASKS bcfg k = Some t \<longrightarrow>
        bot_get_remaining_time bcfg now uid k b = Inr (wait t))
   \<and> (started_at b uid k = Some began \<and> B_TASKS bcfg k = Some t \<longrightarrow>
        bot_get_remaining_time bcfg now uid k b
          = Inr \<lfloor>max 0 (of_int (wait t) - (now - began))\<rfloor>)"
  by (simp add: get_remaining_time_def truthy_start_def tm_get_remaining_time_def
      bot_get_remaining_time_def py_int_max max_py_int)

theorem remaining_time_witness:
  "user_tasks (example_state Approved) (task_key_of 7 ''like'') = None
   \<and> get_remaining_time example_config 25 7 ''like'' (example_state Approved) = Inr 0
   \<and> tm_started example_api_state ''7'' ''like'' = None
   \<and> tm_get_remaining_time 25 ''7'' ''like'' 30 example_api_state = 0
   \<and> started_at example_bot_state 7 ''like'' = None
   \<and> B_TASKS example_bot_config ''like'' = Some \<lparr>reward = 5, wait = 30\<rparr>
   \<and> bot_get_remaining_time example_bot_config 25 7 ''like'' example_bot_state = Inr 30
   \<and> user_tasks example_timed_state (task_key_of 7 ''like'') = Some 10
   \<and> (10::rat) \<noteq> 0
   \<and> TASKS example_config ''like'' = Some \<lparr>reward = 5, wait = 30\<rparr>
   \<and> get_remaining_time example_config 25 7 ''like'' example_timed_state = Inr 15
   \<and> tm_started example_api_timed ''7'' ''like'' = Some 10
   \<and> tm_get_remaining_time 25 ''7'' ''like'' 30 example_api_timed = 15
   \<and> tm_get_remaining_time 50 ''7'' ''like'' 30 example_api_timed = 0
   \<and> started_at example_bot_timed 7 ''like'' = Some 10
   \<and> bot_get_remaining_time example_bot_config 25 7 ''like'' example_bot_timed = Inr 15"
proof -
  let ?vt = "\<lparr>reward = 5, wait = 30\<rparr>"
  have v0: "user_tasks (example_state Approved) (task_key_of 7 ''like'') = None"
    by (simp add: example_state_def)
  have a0: "tm_started example_api_state ''7'' ''like'' = None"
    by (simp add: tm_started_def example_api_state_def)
  have b0: "started_at example_bot_state 7 ''like'' = None"
    by (simp add: started_at_def example_bot_state_def)
  have bt: "B_TASKS example_bot_config ''like'' = Some ?vt"
    by (simp add: example_bot_config_def)
  have vt: "TASKS example_config ''like'' = Some ?vt"
    by (simp add: example_config_def)
  have v1: "user_tasks example_timed_state (task_key_of 7 ''like'') = Some 10"
    by (simp add: example_timed_state_def start_task_timer_def)
  have a1: "tm_started example_api_timed ''7'' ''like'' = Some 10"
    by (simp add: tm_started_def example_api_timed_def tm_start_task_def example_api_state_def)
  have b1: "started_at example_bot_timed 7 ''like'' = Some 10"
    by (simp add: started_at_def example_bot_timed_def bot_start_task_timer_def
        example_bot_state_def)
  note T1 = remaining_time[where s = "example_state Approved" and uid = 7 and k = "''like''"
      and cfg = example_config and now = 25 and a = example_api_state and u = "''7''" and w = 30
      and b = example_bot_state and bcfg = example_bot_config and t = ?vt]
  note T2 = remaining_time[where s = example_timed_state and uid = 7 and k = "''like''"
      and cfg = example_config and now = 25 and began = 10 and a = example_api_timed
      and u = "''7''" and w = 30 and b = example_bot_timed and bcfg = example_bot_config
      and t = ?vt]
  note T3 = remaining_time[where a = example_api_timed and u = "''7''" and k = "''like''"
      and w = 30 and now = 50 and began = 10]
  have p: "get_remaining_time example_config 25 7 ''like'' (example_state Approved) = Inr 0"
    "tm_get_remaining_time 25 ''7'' ''like'' 30 example_api_state = 0"
    "bot_get_remaining_time example_bot_config 25 7 ''like'' example_bot_state = Inr 30"
    using T1 v0 a0 b0 bt by simp_all
  have q: "get_remaining_time example_config 25 7 ''like'' example_timed_state = Inr 15"
    "tm_get_remaining_time 25 ''7'' ''like'' 30 example_api_timed = 15"
    "bot_get_remaining_time example_bot_config 25 7 ''like'' example_bot_timed = Inr 15"
    using T2 v1 a1 b1 bt vt by simp_all
  have r: "tm_get_remaining_time 50 ''7'' ''like'' 30 example_api_timed = 0"
    using T3 a1 by simp
  show ?thesis
    using v0 a0 b0 bt vt v1 a1 b1 p q r by simp
qed

theorem remaining_time_counterexample:
  "started_at bot_fresh 7 ''like'' = None
   \<and> bot_get_remaining_time example_bot_config 25 7 ''like'' bot_fresh = Inr 30
   \<and> bot_get_remaining_time example_bot_config 25 7 ''like'' bot_fresh \<noteq> Inr 0"
  by (simp add: started_at_def bot_fresh_def bot_get_remaining_time_def example_bot_config_def)

section \<open>Where the programs differ from the specification\<close>

subsection \<open>A request replaced under its own id\<close>

text \<open>
  Claim C3, evaluated on the payout-request bot. The request id is made of the whole
  second of the clock and a random number from 1000 to 9999, and \<open>create_payout_request\<close>
  stores the new request under it without looking whether the id is in use. User 7 and
  user 8 send their payout addresses within the same second and the same number 1234 is
  drawn twice: the pending request REQ_100_1234 of user 7 becomes a pending request of
  user 8, and user 7, whose balance was set to 0, has no request left. When the admin
  approved the request of user 7 in between, the approved request becomes pending again,
  and a second approve command, which was answered "already approved" before, goes
  through.
\<close>

theorem request_id_collision:
  "request_summary (run example_config collision_events fresh)
     = [(''REQ_100_1234'', 7, 5, Pending)]
   \<and> request_summary (run example_config (collision_events @ [colliding_address]) fresh)
     = [(''REQ_100_1234'', 8, 5, Pending)]
   \<and> map_option balance
        (users (run example_config (collision_events @ [colliding_address]) fresh) ''7'')
     = Some 0
   \<and> get_user_pending_requests 7
        (run example_config (collision_events @ [colliding_address]) fresh) = []
   \<and> request_summary (run example_config (collision_events @ [early_approval]) fresh)
     = [(''REQ_100_1234'', 7, 5, Approved)]
   \<and> fst (admin_approve example_config 200 1 [''REQ_100_1234'']
        (run example_config (collision_events @ [early_approval]) fresh))
     = AlreadyProcessed Approved
   \<and> request_summary
        (run example_config (collision_events @ [early_approval, colliding_address]) fresh)
     = [(''REQ_100_1234'', 8, 5, Pending)]
   \<and> fst (admin_approve example_config 200 1 [''REQ_100_1234'']
        (run example_config (collision_events @ [early_approval, colliding_address]) fresh))
     = RequestApproved"
  by code_simp

subsection \<open>The amount of a payout request and the balance it takes\<close>

text \<open>
  Claim C4, evaluated on the payout-request bot. User 7 has a balance of 10 when choosing
  the payout method, so 10 is kept as the amount; two more task clicks bring the balance
  to 15; the address message then stores a request of 10 and sets the balance to 0, so
  the balance falls by 15 and not by the requested 10. The stored amount stays 10: a
  rejection gives 10 back.
\<close>

theorem stale_payout_amount:
  "map_option balance (users (run example_config stale_amount_events fresh) ''7'') = Some 15
   \<and> map_option payout_amount (user_data (run example_config stale_amount_events fresh) 7)
        = Some 10
   \<and> map_option balance
        (users (run example_config (stale_amount_events @ [address_event 170]) fresh) ''7'')
        = Some 0
   \<and> request_summary (run example_config (stale_amount_events @ [address_event 170]) fresh)
        = [(''REQ_170_1000'', 7, 10, Pending)]
   \<and> map_option balance
        (users (run example_config
           (stale_amount_events @ [address_event 170, (180, 1000, EvReject 1 [''REQ_170_1000''])])
           fresh) ''7'')
        = Some 10"
  by code_simp

subsection \<open>Two pending payout requests of one user\<close>

text \<open>
  Claim C5, evaluated on the payout-request bot. The payout menu refuses a user with a
  pending request, but the method button and the address message do not look at the
  stored requests: after a first request, user 7 earns the minimum again, presses a method
  button and sends an address, and then has two pending requests.
\<close>

theorem second_pending_request:
  "request_summary (run example_config second_request_events fresh)
     = [(''REQ_80_1000'', 7, 5, Pending), (''REQ_150_1000'', 7, 5, Pending)]
   \<and> length (get_user_pending_requests 7 (run example_config second_request_events fresh)) = 2
   \<and> fst (button example_config 160 7 CbPayout (run example_config second_request_events fresh))
        = PendingRequestsExist 2"
  by code_simp

subsection \<open>A referral counted as a completed task\<close>

text \<open>
  Claim C7, evaluated on the payout-request bot. With a referral bonus of 1, a referrer
  with balance 0 and no completed task ends with balance 1, total_earned 1, referrals 1
  and tasks_completed 1: \<open>start\<close> credits the bonus with \<open>add_earnings\<close>, which counts a
  task. The API-backed bot credits the bonus with \<open>add_user_earnings\<close>, which sends
  tasksCompleted + 1 as well.
\<close>

theorem referral_counts_as_task:
  "users (run example_config referral_events fresh) ''42''
     = Some \<lparr>balance = 1, total_earned = 1, tasks_completed = 1, referrals = 1,
              daily_earned = 1, last_activity = 100, joined = 0\<rparr>
   \<and> map_option tasksCompleted
        (api_users (snd (add_user_earnings ''7'' 1 example_api_state)) ''7'') = Some 1"
  by code_simp

subsection \<open>Yesterday's earnings in today's total\<close>

text \<open>
  On a new day the task button of the payout-request bot does leave daily_earned at the
  reward alone, when the daily limit is positive.
\<close>

lemma button_task_new_day:
  assumes "users s (str uid) = Some usr" and "date_of (last_activity usr) < date_of now"
    and "0 < DAILY_LIMIT cfg" and "TASKS cfg k = Some t"
    and "user_tasks s (task_key_of uid k) = Some began" and "began \<noteq> 0"
    and "of_int (wait t) \<le> now - began"
  shows "fst (can_earn_today cfg now uid s)"
    and "map_option daily_earned (users (snd (button_task cfg now uid k t s)) (str uid))
           = Some (reward t)"
proof -
  show e: "fst (can_earn_today cfg now uid s)"
    using assms(1-3) by (simp add: can_earn_today_def Let_def split_def get_user_def)
  have "map_option daily_earned (users (snd (can_earn_today cfg now uid s)) (str uid)) = Some 0"
    using assms(1,2) by (simp add: can_earn_today_def Let_def split_def get_user_def)
  then show "map_option daily_earned (users (snd (button_task cfg now uid k t s)) (str uid))
           = Some (reward t)"
    by (auto simp: button_task_elapsed[OF e assms(4-7)] add_earnings_def Let_def split_def
        get_user_def split: option.splits)
qed

text \<open>
  Claim C8, evaluated. In the API-backed bot a user who earned 5 on day 0 may earn on day
  1 whatever the limit, but the credit of 1 then sends dailyEarned = 6, not 1: nothing
  resets the stored value. In the payout-request bot the reset is inside
  \<open>can_earn_today\<close>, which the task button calls before it credits; the referral credit
  of \<open>start\<close> does not call it, so a bonus of 1 on day 1 leaves daily_earned = 6 as well.
\<close>

theorem daily_earned_not_reset:
  "api_can_earn_today 86500 (example_api_user\<lparr>dailyEarned := 5, lastActivity := Some 0\<rparr>) 5
   \<and> map_option dailyEarned
        (api_users (snd (add_user_earnings ''7'' 1 yesterday_api_state)) ''7'') = Some 6
   \<and> map_option daily_earned (users (run example_config (take 3 next_day_referral_events) fresh)
        ''42'') = Some 5
   \<and> map_option daily_earned (users (run example_config next_day_referral_events fresh) ''42'')
        = Some 6"
  by code_simp

subsection \<open>A claim in the last second of the wait\<close>

text \<open>
  In the API-backed bot a claim with less than one second of the wait left finds the
  timer not completed and a remaining time of 0 whole seconds, and is answered "not
  started yet" although the timer runs.
\<close>

lemma claim_in_last_second:
  "tm_started example_api_timed ''7'' ''like'' = Some 10
   \<and> \<not> tm_is_task_completed (79 / 2) ''7'' ''like'' 30 example_api_timed
   \<and> fst (handle_task_claim example_tasks [''like'' \<mapsto> 5] (79 / 2) ''7'' ''like''
        example_api_timed) = TaskNotStartedYet"
  by code_simp

end
